theory Spec2Isabelle
  imports Main "HOL-Library.AList" "HOL-Library.Sublist"
begin

section \<open>Values of the build system\<close>

text \<open>
  Python exceptions are values of type \<open>exc\<close>: the class and the message. The classes are
  the ones \<^verbatim>\<open>hancho.py\<close> raises or catches; \<open>is_subclass\<close> is Python's class hierarchy
  (\<^verbatim>\<open>asyncio.CancelledError\<close> derives from \<^verbatim>\<open>BaseException\<close> directly, every other
  class through \<^verbatim>\<open>Exception\<close>).
\<close>

datatype exc_class =
    BaseException | Exception | ValueError | NameError | TypeError | AttributeError
  | IndexError | SyntaxError | RuntimeError | RecursionError | OSError | FileNotFoundError
  | CancelledError

datatype exc = Exc exc_class string

fun exc_class_of :: "exc \<Rightarrow> exc_class" where
  "exc_class_of (Exc c m) = c"

fun base_class :: "exc_class \<Rightarrow> exc_class option" where
  "base_class BaseException = None"
| "base_class Exception = Some BaseException"
| "base_class CancelledError = Some BaseException"
| "base_class RecursionError = Some RuntimeError"
| "base_class FileNotFoundError = Some OSError"
| "base_class c = Some Exception"

text \<open>\<open>is_subclass c d\<close>: class \<open>c\<close> is \<open>d\<close> or derives from it (the chains are at most four long).\<close>

definition is_subclass :: "exc_class \<Rightarrow> exc_class \<Rightarrow> bool" where
  "is_subclass c d =
     (c = d \<or> base_class c = Some d
      \<or> Option.bind (base_class c) base_class = Some d
      \<or> Option.bind (Option.bind (base_class c) base_class) base_class = Some d)"

definition isinstance_exc :: "exc \<Rightarrow> exc_class \<Rightarrow> bool" where
  "isinstance_exc e d = is_subclass (exc_class_of e) d"

text \<open>
  A \<open>variant\<close> is any value a config field can hold. A \<open>Config\<close> is the table of its own
  attributes (its \<^verbatim>\<open>__dict__\<close>), in insertion order; the attributes it inherits from the
  class are added by \<open>getattr\<close> below. An \<open>Expander\<close> is the wrapper of lines 479-493 around
  a config; a \<open>Task\<close> is read through its \<^verbatim>\<open>promise\<close> attribute only, so \<open>VTask\<close> carries
  that attribute's value; \<open>VFuture i\<close> is the awaitable \<^verbatim>\<open>asyncio.create_task\<close> returned for
  the \<open>i\<close>-th queued task; \<open>VExc\<close> is an exception instance held as a value (the
  cancellation sentinel is \<open>VExc (Exc CancelledError m)\<close>, and an empty message stands for
  an exception made without arguments). \<open>VFunction\<close> is a plain Python function, \<open>VMethod\<close>
  a method bound to its object, \<open>VBuiltin\<close> a built-in function, \<open>VStaticmethod\<close> a
  \<^verbatim>\<open>staticmethod\<close> object, each by its name, and \<open>VObject\<close> any other object, by the name of
  its type. Floats are left out: \<open>expand\<close> treats them as it treats integers. A character
  is a code point below 256.
\<close>

datatype variant =
    VNone
  | VBool bool
  | VInt int
  | VStr string
  | VList "variant list"
  | VDict "(string \<times> variant) list"
  | VConfig "(string \<times> variant) list"
  | VExpander "(string \<times> variant) list"
  | VExc exc
  | VTask variant
  | VFuture nat
  | VFunction string
  | VMethod string
  | VBuiltin string
  | VStaticmethod string
  | VObject string

type_synonym fields = "(string \<times> variant) list"

section \<open>Path utilities (lines 71-110)\<close>

text \<open>\<^verbatim>\<open>_flatten\<close>: a list is flattened depth first, anything else is a one-element list.\<close>

fun flatten :: "variant \<Rightarrow> variant list" where
  "flatten (VList vs) = concat (map flatten vs)"
| "flatten v = [v]"

text \<open>
  \<^verbatim>\<open>os.path.join\<close> on two strings (posixpath): an absolute second component replaces the
  first; otherwise the components are joined with one separator, which is not added after
  an empty first component or one that already ends with it.
\<close>

definition is_abs :: "string \<Rightarrow> bool" where
  "is_abs s = (case s of [] \<Rightarrow> False | c # cs \<Rightarrow> c = CHR ''/'')"

definition ends_with_sep :: "string \<Rightarrow> bool" where
  "ends_with_sep s = (s \<noteq> [] \<and> last s = CHR ''/'')"

definition path_join :: "string \<Rightarrow> string \<Rightarrow> string" where
  "path_join a b =
     (if is_abs b then b
      else if a = [] \<or> ends_with_sep a then a @ b
      else a @ ''/'' @ b)"

text \<open>\<^verbatim>\<open>os.path.join\<close> on two values: a component that is not a string is a TypeError.\<close>

fun os_path_join :: "variant \<Rightarrow> variant \<Rightarrow> exc + variant" where
  "os_path_join (VStr a) (VStr b) = Inr (VStr (path_join a b))"
| "os_path_join a b = Inl (Exc TypeError ''expected str, bytes or os.PathLike object'')"

text \<open>
  The comprehension of line 107,
  \<^verbatim>\<open>[path.join(arg0, arg1) for arg0 in args0 for arg1 in args1]\<close>: the first failing
  \<^verbatim>\<open>path.join\<close> ends it.
\<close>

fun join_inner :: "variant \<Rightarrow> variant list \<Rightarrow> exc + variant list" where
  "join_inner arg0 [] = Inr []"
| "join_inner arg0 (arg1 # args1) =
     (case os_path_join arg0 arg1 of
        Inl e \<Rightarrow> Inl e
      | Inr j \<Rightarrow> (case join_inner arg0 args1 of Inl e \<Rightarrow> Inl e | Inr js \<Rightarrow> Inr (j # js)))"

fun join_outer :: "variant list \<Rightarrow> variant list \<Rightarrow> exc + variant list" where
  "join_outer [] args1 = Inr []"
| "join_outer (arg0 # args0) args1 =
     (case join_inner arg0 args1 of
        Inl e \<Rightarrow> Inl e
      | Inr js \<Rightarrow> (case join_outer args0 args1 of Inl e \<Rightarrow> Inl e | Inr ks \<Rightarrow> Inr (js @ ks)))"

text \<open>\<^verbatim>\<open>result[0] if len(result) == 1 else result\<close> (line 108).\<close>

definition collapse :: "variant list \<Rightarrow> variant" where
  "collapse result = (if length result = 1 then result ! 0 else VList result)"

text \<open>
  \<^verbatim>\<open>_join_path(*args)\<close>, by the number of arguments as the \<^verbatim>\<open>match\<close> of lines 99-110 has it:
  none gives the empty string, one gives \<^verbatim>\<open>list(args)\<close>, two give the joined product, and
  more recurse on the tail first.
\<close>

function join_path :: "variant list \<Rightarrow> exc + variant" where
  "join_path [] = Inr (VStr [])"
| "join_path [a] = Inr (VList [a])"
| "join_path [a, b] =
     (case join_outer (flatten a) (flatten b) of
        Inl e \<Rightarrow> Inl e
      | Inr result \<Rightarrow> Inr (collapse result))"
| "join_path (a # b # c # rest) =
     (case join_path (b # c # rest) of
        Inl e \<Rightarrow> Inl e
      | Inr r \<Rightarrow> join_path [a, r])"
  by pat_completeness auto
termination
  by (relation "measure length") auto

text \<open>\<^verbatim>\<open>str.removeprefix\<close>.\<close>

definition removeprefix :: "string \<Rightarrow> string \<Rightarrow> string" where
  "removeprefix s p = (if prefix p s then drop (length p) s else s)"

text \<open>
  \<^verbatim>\<open>_rel_path(path1, path2)\<close> (lines 86-94), for a string \<open>path2\<close>: a list is mapped
  element by element; a string equal to \<open>path2\<close> gives the empty string and any other
  string loses the prefix \<^verbatim>\<open>path2 + "/"\<close>; a value of another type differs from \<open>path2\<close> and
  has no \<^verbatim>\<open>removeprefix\<close>.
\<close>

fun rel_path :: "variant \<Rightarrow> string \<Rightarrow> exc + variant"
  and rel_path_list :: "variant list \<Rightarrow> string \<Rightarrow> exc + variant list" where
  "rel_path (VList ps) path2 =
     (case rel_path_list ps path2 of Inl e \<Rightarrow> Inl e | Inr rs \<Rightarrow> Inr (VList rs))"
| "rel_path (VStr path1) path2 =
     (if path1 \<noteq> path2 then Inr (VStr (removeprefix path1 (path2 @ ''/''))) else Inr (VStr []))"
| "rel_path v path2 = Inl (Exc AttributeError ''object has no attribute removeprefix'')"
| "rel_path_list [] path2 = Inr []"
| "rel_path_list (p # ps) path2 =
     (case rel_path p path2 of
        Inl e \<Rightarrow> Inl e
      | Inr r \<Rightarrow> (case rel_path_list ps path2 of Inl e \<Rightarrow> Inl e | Inr rs \<Rightarrow> Inr (r # rs)))"

text \<open>
  The spec's words for \<^verbatim>\<open>join_path\<close>: the Cartesian product of the per-argument flattened
  sequences, each tuple joined pairwise with the separator, collapsed to a scalar when the
  product has exactly one element. \<open>product_lists\<close> lists the tuples with the first
  argument varying slowest.
\<close>

fun join_tuple :: "string list \<Rightarrow> string" where
  "join_tuple [] = []"
| "join_tuple [x] = x"
| "join_tuple (x # y # ys) = path_join x (join_tuple (y # ys))"

definition cartesian_join :: "string list list \<Rightarrow> string list" where
  "cartesian_join xss = map join_tuple (product_lists xss)"

definition spec_join_path :: "string list list \<Rightarrow> variant" where
  "spec_join_path xss = collapse (map VStr (cartesian_join xss))"

section \<open>Strings\<close>

text \<open>\<^verbatim>\<open>str(n)\<close> for an integer: the decimal digits, with a minus sign for a negative one.\<close>

function str_nat :: "nat \<Rightarrow> string" where
  "str_nat n =
     (if n < 10 then [''0123456789'' ! n]
      else str_nat (n div 10) @ [''0123456789'' ! (n mod 10)])"
  by pat_completeness auto
termination
  by (relation "measure id") auto

definition str_int :: "int \<Rightarrow> string" where
  "str_int i = (if i < 0 then ''-'' @ str_nat (nat (- i)) else str_nat (nat i))"

text \<open>A text between single quotes, as the messages of the source write it; and
  \<^verbatim>\<open>sep.join(xs)\<close>.\<close>

definition quoted :: "string \<Rightarrow> string" where
  "quoted s = [CHR 0x27] @ s @ [CHR 0x27]"

fun join_with :: "string \<Rightarrow> string list \<Rightarrow> string" where
  "join_with sep [] = []"
| "join_with sep [x] = x"
| "join_with sep (x # y # ys) = x @ sep @ join_with sep (y # ys)"

text \<open>
  \<^verbatim>\<open>repr(s)\<close> for a string: between double quotes when the string holds a single quote and
  no double quote, between single quotes otherwise; the quote in use and the backslash are
  escaped, tab, newline and carriage return are written \<^verbatim>\<open>\t\<close>, \<^verbatim>\<open>\n\<close>, \<^verbatim>\<open>\r\<close>, and every
  other character that is not printable (the control characters, the no-break space and the
  soft hyphen) is written \<^verbatim>\<open>\xNN\<close>.
\<close>

definition hex2 :: "nat \<Rightarrow> string" where
  "hex2 n = [''0123456789abcdef'' ! (n div 16 mod 16), ''0123456789abcdef'' ! (n mod 16)]"

definition is_printable :: "char \<Rightarrow> bool" where
  "is_printable c =
     (let n = (of_char c :: nat)
      in 0x20 \<le> n \<and> n < 0x7F \<or> 0xA0 < n \<and> n \<noteq> 0xAD)"

definition repr_char :: "char \<Rightarrow> char \<Rightarrow> string" where
  "repr_char q c =
     (if c = q \<or> c = CHR 0x5C then [CHR 0x5C, c]
      else if c = CHR 0x09 then [CHR 0x5C, CHR ''t'']
      else if c = CHR 0x0A then [CHR 0x5C, CHR ''n'']
      else if c = CHR 0x0D then [CHR 0x5C, CHR ''r'']
      else if is_printable c then [c]
      else [CHR 0x5C, CHR ''x''] @ hex2 (of_char c))"

definition repr_str :: "string \<Rightarrow> string" where
  "repr_str s =
     (let q = (if CHR 0x27 \<in> set s \<and> CHR 0x22 \<notin> set s then CHR 0x22 else CHR 0x27)
      in [q] @ concat (map (repr_char q) s) @ [q])"

text \<open>
  \<^verbatim>\<open>type(v).__name__\<close>, \<^verbatim>\<open>repr(v)\<close> and \<^verbatim>\<open>str(v)\<close>. An object that Python prints with its
  address (a config, an expander, a task, a function) is printed as the name of its type
  between angle brackets.
\<close>

fun class_name :: "exc_class \<Rightarrow> string" where
  "class_name BaseException = ''BaseException''"
| "class_name Exception = ''Exception''"
| "class_name ValueError = ''ValueError''"
| "class_name NameError = ''NameError''"
| "class_name TypeError = ''TypeError''"
| "class_name AttributeError = ''AttributeError''"
| "class_name IndexError = ''IndexError''"
| "class_name SyntaxError = ''SyntaxError''"
| "class_name RuntimeError = ''RuntimeError''"
| "class_name RecursionError = ''RecursionError''"
| "class_name OSError = ''OSError''"
| "class_name FileNotFoundError = ''FileNotFoundError''"
| "class_name CancelledError = ''CancelledError''"

fun type_name :: "variant \<Rightarrow> string" where
  "type_name VNone = ''NoneType''"
| "type_name (VBool b) = ''bool''"
| "type_name (VInt i) = ''int''"
| "type_name (VStr s) = ''str''"
| "type_name (VList vs) = ''list''"
| "type_name (VDict d) = ''dict''"
| "type_name (VConfig c) = ''Config''"
| "type_name (VExpander c) = ''Expander''"
| "type_name (VExc (Exc c m)) = class_name c"
| "type_name (VTask p) = ''Task''"
| "type_name (VFuture i) = ''Task''"
| "type_name (VFunction f) = ''function''"
| "type_name (VMethod f) = ''method''"
| "type_name (VBuiltin f) = ''builtin_function_or_method''"
| "type_name (VStaticmethod f) = ''staticmethod''"
| "type_name (VObject n) = n"

fun py_repr :: "variant \<Rightarrow> string" where
  "py_repr VNone = ''None''"
| "py_repr (VBool b) = (if b then ''True'' else ''False'')"
| "py_repr (VInt i) = str_int i"
| "py_repr (VStr s) = repr_str s"
| "py_repr (VList vs) = ''['' @ join_with '', '' (map py_repr vs) @ '']''"
| "py_repr (VDict d) =
     ''{'' @ join_with '', '' (map (\<lambda>(key, v). repr_str key @ '': '' @ py_repr v) d) @ ''}''"
| "py_repr (VExc (Exc c m)) = class_name c @ ''('' @ (if m = [] then [] else repr_str m) @ '')''"
| "py_repr v = ''<'' @ type_name v @ ''>''"

fun py_str :: "variant \<Rightarrow> string" where
  "py_str (VStr s) = s"
| "py_str (VExc (Exc c m)) = m"
| "py_str v = py_repr v"

section \<open>Configs, tasks and the application state\<close>

text \<open>
  \<^verbatim>\<open>Config.merge\<close> (lines 214-216) sets each item of the argument as an attribute: an
  attribute that is already there keeps its place and takes the new value, a new one is
  added last. \<^verbatim>\<open>Config.update\<close> (lines 208-212) merges the positional arguments in order,
  then the keyword arguments. \<^verbatim>\<open>Config.__init__\<close> (lines 202-203) calls
  \<^verbatim>\<open>self.update(*args, kwargs)\<close>: its keyword dictionary is passed on as the last positional
  argument.
\<close>

definition merge :: "fields \<Rightarrow> fields \<Rightarrow> fields" where
  "merge self d = fold (\<lambda>(key, val) acc. AList.update key val acc) d self"

definition update_config :: "fields \<Rightarrow> fields list \<Rightarrow> fields \<Rightarrow> fields" where
  "update_config self args kwargs = merge (fold (\<lambda>arg acc. merge acc arg) args self) kwargs"

definition Config_init :: "fields list \<Rightarrow> fields \<Rightarrow> fields" where
  "Config_init args kwargs = update_config [] (args @ [kwargs]) []"

text \<open>
  The attributes that every config inherits from the class \<^verbatim>\<open>Config\<close> (lines 199-314), as
  reading them through a config gives them: a method or a lambda of the class body comes
  bound to the config, a \<^verbatim>\<open>staticmethod\<close> comes as the function it wraps, and the rest are
  the strings, numbers and flags of lines 268-314. Three attributes are not in the table,
  because the class takes them from the machine when the module is loaded: \<^verbatim>\<open>root_path\<close>
  and \<^verbatim>\<open>repo_path\<close> (\<^verbatim>\<open>os.getcwd()\<close>) and \<^verbatim>\<open>jobs\<close> (\<^verbatim>\<open>os.cpu_count()\<close>); a config that
  reads them holds them itself, as the defaults of a task do for the first two. The
  special attributes (\<^verbatim>\<open>__dict__\<close>, \<^verbatim>\<open>__class__\<close> and the like) are left out as well, and so
  is the command line, which can overwrite the flags (lines 917-921).
\<close>

definition Config_class :: fields where
  "Config_class =
     [(''update'', VMethod ''update''),
      (''merge'', VMethod ''merge''),
      (''items'', VMethod ''items''),
      (''keys'', VMethod ''keys''),
      (''expand'', VMethod ''expand''),
      (''config'', VMethod ''config''),
      (''extend'', VMethod ''extend''),
      (''repo'', VMethod ''repo''),
      (''repo2'', VMethod ''repo2''),
      (''command2'', VMethod ''command2''),
      (''task'', VMethod ''task''),
      (''module'', VMethod ''module''),
      (''include'', VMethod ''include''),
      (''reset'', VMethod ''reset''),
      (''build'', VMethod ''build''),
      (''get_log'', VMethod ''get_log''),
      (''abs_path'', VFunction ''_abs_path''),
      (''rel_path'', VFunction ''_rel_path''),
      (''join_path'', VFunction ''_join_path''),
      (''color'', VFunction ''_color''),
      (''glob'', VFunction ''glob''),
      (''len'', VBuiltin ''len''),
      (''run_cmd'', VFunction ''_run_cmd''),
      (''swap_ext'', VFunction ''_swap_ext''),
      (''flatten'', VFunction ''_flatten''),
      (''print'', VBuiltin ''print''),
      (''basename'', VFunction ''basename''),
      (''root_name'', VStr ''build.hancho''),
      (''repo_name'', VStr []),
      (''depformat'', VStr ''gcc''),
      (''job_count'', VInt 1),
      (''ext_build'', VBool False),
      (''verbose'', VBool False),
      (''quiet'', VBool False),
      (''dry_run'', VBool False),
      (''debug'', VBool False),
      (''force'', VBool False),
      (''shuffle'', VBool False),
      (''trace'', VBool False),
      (''use_color'', VBool True),
      (''abs_command_path'', VStr ''{abs_path(join_path(base_path,   command_path))}''),
      (''abs_source_path'', VStr ''{abs_path(join_path(base_path,   source_path))}''),
      (''abs_build_path'', VStr ''{abs_path(join_path(base_path,   build_path))}''),
      (''abs_command_files'', VStr ''{flatten(join_path(abs_command_path, command_files))}''),
      (''abs_source_files'', VStr ''{flatten(join_path(abs_source_path,  source_files))}''),
      (''abs_build_files'', VStr ''{flatten(join_path(abs_build_path,   build_files))}''),
      (''abs_build_deps'', VStr ''{flatten(join_path(abs_build_path,   build_deps))}''),
      (''rel_source_path'', VStr ''{rel_path(abs_source_path,   abs_command_path)}''),
      (''rel_build_path'', VStr ''{rel_path(abs_build_path,    abs_command_path)}''),
      (''rel_command_files'', VStr ''{rel_path(abs_command_files, abs_command_path)}''),
      (''rel_source_files'', VStr ''{rel_path(abs_source_files,  abs_command_path)}''),
      (''rel_build_files'', VStr ''{rel_path(abs_build_files,   abs_command_path)}''),
      (''rel_build_deps'', VStr ''{rel_path(abs_build_deps,    abs_command_path)}''),
      (''default_command_path'', VStr ''{base_path}''),
      (''default_source_path'', VStr ''{base_path}''),
      (''default_build_path'', VStr ''{root_path}/{build_dir}/{build_tag}/{repo_name}/{rel_path(abs_source_path, repo_path)}''),
      (''command_path'', VStr ''{default_command_path}''),
      (''source_path'', VStr ''{default_source_path}''),
      (''build_path'', VStr ''{default_build_path}'')]"

text \<open>\<^verbatim>\<open>getattr(config, key)\<close>: the config's own attribute, or else the one of the class.\<close>

definition getattr :: "fields \<Rightarrow> string \<Rightarrow> exc + variant" where
  "getattr c key =
     (case map_of c key of
        Some v \<Rightarrow> Inr v
      | None \<Rightarrow>
          (case map_of Config_class key of
             Some v \<Rightarrow> Inr v
           | None \<Rightarrow>
               Inl (Exc AttributeError
                      (quoted ''Config'' @ '' object has no attribute '' @ quoted key))))"

text \<open>A \<^verbatim>\<open>Task\<close> object (lines 563-566) and the \<^verbatim>\<open>App\<close> singleton (lines 823-844). The log,
  the terminal state, the unused \<^verbatim>\<open>repos\<close> list and the lock object are left out; the job
  pool is the counter \<open>jobs_available\<close>.\<close>

record task =
  config :: fields
  action :: fields
  reason :: variant
  promise :: variant

record app =
  loaded_modules :: "string list"
  all_build_files :: "string set"
  tasks_total :: int
  tasks_pass :: int
  tasks_fail :: int
  tasks_skip :: int
  tasks_cancel :: int
  task_counter :: int
  mtime_calls :: int
  expand_depth :: int
  pending_tasks :: "task list"
  queued_tasks :: "task list"
  jobs_available :: int
  dirstack :: "string list"

text \<open>
  The attributes of \<^verbatim>\<open>task.action\<close> that the staleness check and the command runner read,
  as \<^verbatim>\<open>task_init\<close> leaves them (lines 634-660): the file lists are flat lists of absolute
  path strings, \<open>command\<close> is the flattened command list, \<open>depformat\<close> is whatever the
  expansion of \<^verbatim>\<open>config.depformat\<close> gave, \<open>job_count\<close> is an integer, and \<open>dry_run\<close> is
  the flag \<^verbatim>\<open>self.action.dry_run\<close> resolves to.
\<close>

record task_action =
  command :: "variant list"
  depformat :: variant
  job_count :: int
  dry_run :: bool
  abs_command_path :: string
  abs_command_files :: "string list"
  abs_source_files :: "string list"
  abs_build_files :: "string list"
  abs_build_deps :: "string list"

text \<open>
  What lies outside the program: \<open>call f\<close> is the outcome of calling the callback \<open>f\<close> on
  the task, \<open>shell c\<close> the return code of the subprocess for the command line \<open>c\<close>,
  \<open>disk\<close> the file system (a path that exists has a modification time in nanoseconds
  and a text), and \<open>json_includes s\<close> what \<^verbatim>\<open>json.load\<close> of the text \<open>s\<close>, indexed at
  \<^verbatim>\<open>["Data"]["Includes"]\<close>, gives.
\<close>

record disk_file =
  st_mtime_ns :: int
  text_of :: string

record env =
  call :: "string \<Rightarrow> exc + variant"
  shell :: "string \<Rightarrow> int"
  disk :: "string \<Rightarrow> disk_file option"
  json_includes :: "string \<Rightarrow> exc + string list"

text \<open>\<^verbatim>\<open>App.__init__\<close>, given what \<^verbatim>\<open>os.cpu_count()\<close> and \<^verbatim>\<open>os.getcwd()\<close> return.\<close>

definition App_init :: "int \<Rightarrow> string \<Rightarrow> app" where
  "App_init cpu_count cwd =
     \<lparr> loaded_modules = [], all_build_files = {},
       tasks_total = 0, tasks_pass = 0, tasks_fail = 0, tasks_skip = 0, tasks_cancel = 0,
       task_counter = 0, mtime_calls = 0, expand_depth = 0,
       pending_tasks = [], queued_tasks = [], jobs_available = cpu_count,
       dirstack = [cwd] \<rparr>"

text \<open>\<^verbatim>\<open>App.topdir\<close> (line 858): \<^verbatim>\<open>self.dirstack[-1]\<close>, an IndexError on an empty stack.\<close>

definition topdir :: "app \<Rightarrow> exc + string" where
  "topdir a =
     (if dirstack a = [] then Inl (Exc IndexError ''list index out of range'')
      else Inr (last (dirstack a)))"

subsection \<open>Constructing a task (lines 531-572)\<close>

text \<open>The defaults of lines 537-558; \<open>root_path\<close> is the class attribute
  \<^verbatim>\<open>Config.root_path\<close>, \<open>base_path\<close> the directory \<^verbatim>\<open>app.topdir()\<close> returned.\<close>

definition Task_defaults :: "string \<Rightarrow> string \<Rightarrow> fields" where
  "Task_defaults root_path base_path = Config_init []
     [(''desc'', VStr ''{source_files} -> {build_files}''),
      (''root_path'', VStr root_path),
      (''repo_path'', VStr root_path),
      (''base_path'', VStr base_path),
      (''command'', VNone),
      (''command_path'', VStr ''{default_command_path}''),
      (''command_files'', VList []),
      (''source_path'', VStr ''{default_source_path}''),
      (''source_files'', VList []),
      (''build_tag'', VStr []),
      (''build_dir'', VStr ''build''),
      (''build_path'', VStr ''{default_build_path}''),
      (''build_files'', VList []),
      (''build_deps'', VList []),
      (''other_files'', VList [])]"

text \<open>Line 563: \<^verbatim>\<open>self.config = Config(defaults, *args, kwargs)\<close>.\<close>

definition Task_config :: "string \<Rightarrow> string \<Rightarrow> fields list \<Rightarrow> fields \<Rightarrow> fields" where
  "Task_config root_path base_path args kwargs =
     Config_init (Task_defaults root_path base_path # args) kwargs"

text \<open>
  \<^verbatim>\<open>Task.__init__(self, *args, **kwargs)\<close>: the config is the defaults with every argument
  merged over them; a config whose \<^verbatim>\<open>command\<close> is \<^verbatim>\<open>None\<close> raises before the counter and
  the pending queue are touched. The message's dump of the task is left out.
\<close>

definition Task_init :: "string \<Rightarrow> fields list \<Rightarrow> fields \<Rightarrow> app \<Rightarrow> (exc + task) \<times> app" where
  "Task_init root_path args kwargs a =
     (case topdir a of
        Inl e \<Rightarrow> (Inl e, a)
      | Inr base_path \<Rightarrow>
          let self = \<lparr> config = Task_config root_path base_path args kwargs,
                       action = Config_init [] [], reason = VNone, promise = VNone \<rparr>
          in (case getattr (config self) ''command'' of
                Inl e \<Rightarrow> (Inl e, a)
              | Inr cmd \<Rightarrow>
                  if cmd = VNone then (Inl (Exc ValueError ''Task has no command''), a)
                  else (Inr self,
                        a\<lparr> tasks_total := tasks_total a + 1,
                           pending_tasks := pending_tasks a @ [self] \<rparr>)))"

subsection \<open>Registering a task's outputs (lines 665-669 of \<^verbatim>\<open>task_init\<close>)\<close>

text \<open>
  The loop over \<^verbatim>\<open>action.abs_build_files\<close>: a path that is already in
  \<^verbatim>\<open>app.all_build_files\<close> raises, any other is added. The paths added before the raise stay
  in the set.
\<close>

definition multiple_rules :: "string \<Rightarrow> exc" where
  "multiple_rules abs_file = Exc NameError (''Multiple rules build '' @ abs_file @ ''!'')"

fun task_init_outputs :: "string list \<Rightarrow> app \<Rightarrow> (exc + unit) \<times> app" where
  "task_init_outputs [] a = (Inr (), a)"
| "task_init_outputs (abs_file # rest) a =
     (if abs_file \<in> all_build_files a
      then (Inl (multiple_rules abs_file), a)
      else task_init_outputs rest (a\<lparr> all_build_files := insert abs_file (all_build_files a) \<rparr>))"

text \<open>
  The tasks of a build reach \<^verbatim>\<open>task_init\<close> one after the other, each inside its own
  \<^verbatim>\<open>run_async\<close>, which catches what it raises (line 609): the next task finds the set as
  the previous one left it. The outcomes are listed in the order of the tasks.
\<close>

fun task_init_outputs_all :: "string list list \<Rightarrow> app \<Rightarrow> (exc + unit) list \<times> app" where
  "task_init_outputs_all [] a = ([], a)"
| "task_init_outputs_all (files # rest) a =
     (case task_init_outputs files a of
        (r, a') \<Rightarrow> (case task_init_outputs_all rest a' of (rs, a'') \<Rightarrow> (r # rs, a'')))"

subsection \<open>The job pool and \<^verbatim>\<open>run_commands\<close> (lines 738-814, 1060-1084)\<close>

text \<open>
  \<^verbatim>\<open>App.acquire_jobs(count)\<close>, with \<open>jobs\<close> the pool size \<^verbatim>\<open>Config.jobs\<close>: a request larger
  than the pool raises; otherwise the task waits until \<open>count\<close> jobs are free and takes
  them. One task is modelled at a time, so a wait that the current state does not satisfy
  never ends here: \<open>None\<close>.
\<close>

definition acquire_jobs :: "int \<Rightarrow> int \<Rightarrow> app \<Rightarrow> ((exc + unit) \<times> app) option" where
  "acquire_jobs jobs count a =
     (if count > jobs then Some (Inl (Exc ValueError
               (''Nedd '' @ str_int count @ '' jobs, but pool is '' @ str_int jobs @ ''.'')), a)
      else if jobs_available a \<ge> count
        then Some (Inr (), a\<lparr> jobs_available := jobs_available a - count \<rparr>)
      else None)"

text \<open>\<^verbatim>\<open>App.release_jobs(count)\<close>.\<close>

definition release_jobs :: "int \<Rightarrow> app \<Rightarrow> app" where
  "release_jobs count a = a\<lparr> jobs_available := jobs_available a + count \<rparr>"

text \<open>
  \<^verbatim>\<open>Task.run_command\<close> (lines 767-814): a dry run returns the output list at once; a
  callable is called; a string is run in a subprocess, and a return code other than zero
  raises; anything else is refused. (A \<^verbatim>\<open>Command\<close>, the callable kind of config, is not
  told apart from a plain config here.)
\<close>

definition run_command :: "env \<Rightarrow> task_action \<Rightarrow> variant \<Rightarrow> exc + variant" where
  "run_command w t cmd =
     (if dry_run t then Inr (VList (map VStr (abs_build_files t)))
      else case cmd of
        VFunction f \<Rightarrow> call w f
      | VMethod f \<Rightarrow> call w f
      | VBuiltin f \<Rightarrow> call w f
      | VStaticmethod f \<Rightarrow> call w f
      | VStr c \<Rightarrow>
          if shell w c \<noteq> 0
          then Inl (Exc ValueError
                 (''Command '' @ quoted c @ '' exited with return code '' @ str_int (shell w c)))
          else Inr (VList (map VStr (abs_build_files t)))
      | _ \<Rightarrow> Inl (Exc ValueError (''Don't know what to do with '' @ py_str cmd)))"

text \<open>The loop of lines 755-761: \<open>result\<close> is what the last command returned.\<close>

fun run_each :: "env \<Rightarrow> task_action \<Rightarrow> variant list \<Rightarrow> variant \<Rightarrow> exc + variant" where
  "run_each w t [] result = Inr result"
| "run_each w t (exp_command # rest) result =
     (case run_command w t exp_command of
        Inl e \<Rightarrow> Inl e
      | Inr r \<Rightarrow> run_each w t rest r)"

text \<open>
  \<^verbatim>\<open>Task.run_commands\<close> (lines 738-765). The \<^verbatim>\<open>try\<close> block holds the call of
  \<^verbatim>\<open>acquire_jobs\<close> and the loop; the \<^verbatim>\<open>finally\<close> block releases \<open>job_count\<close> jobs however
  the \<^verbatim>\<open>try\<close> block ended, and then the exception, if any, goes on.
\<close>

definition run_commands ::
  "env \<Rightarrow> int \<Rightarrow> task_action \<Rightarrow> app \<Rightarrow> ((exc + variant) \<times> app) option" where
  "run_commands w jobs t a =
     (case acquire_jobs jobs (job_count t) a of
        None \<Rightarrow> None
      | Some (acquired, a1) \<Rightarrow>
          let try_block =
                (case acquired of
                   Inl e \<Rightarrow> Inl e
                 | Inr u \<Rightarrow> run_each w t (command t) (VList []))
          in Some (try_block, release_jobs (job_count t) a1))"

subsection \<open>The staleness check \<^verbatim>\<open>needs_rerun\<close> (lines 677-736)\<close>

text \<open>\<^verbatim>\<open>_mtime\<close> (lines 134-137) counts the call, then stats the file.\<close>

definition mtime :: "env \<Rightarrow> string \<Rightarrow> app \<Rightarrow> (exc + int) \<times> app" where
  "mtime w filename a =
     (case disk w filename of
        None \<Rightarrow> Inl (Exc FileNotFoundError filename)
      | Some f \<Rightarrow> Inr (st_mtime_ns f),
      a\<lparr> mtime_calls := mtime_calls a + 1 \<rparr>)"

text \<open>The generator of line 696, \<^verbatim>\<open>_mtime(f) for f in ...\<close>, and \<^verbatim>\<open>min\<close> of it.\<close>

fun mtimes :: "env \<Rightarrow> string list \<Rightarrow> app \<Rightarrow> (exc + int list) \<times> app" where
  "mtimes w [] a = (Inr [], a)"
| "mtimes w (f # fs) a =
     (case mtime w f a of
        (Inl e, a1) \<Rightarrow> (Inl e, a1)
      | (Inr m, a1) \<Rightarrow>
          (case mtimes w fs a1 of
             (Inl e, a2) \<Rightarrow> (Inl e, a2)
           | (Inr ms, a2) \<Rightarrow> (Inr (m # ms), a2)))"

fun py_min :: "int list \<Rightarrow> exc + int" where
  "py_min [] = Inl (Exc ValueError ''min() arg is an empty sequence'')"
| "py_min (m # ms) = Inr (fold min ms m)"

text \<open>
  The loops of lines 698-708 and 730-732: the first file whose modification time is at
  least \<open>min_out\<close> ends the loop and is the reason; \<open>None\<close> when the loop runs out.
\<close>

fun changed_file :: "env \<Rightarrow> int \<Rightarrow> string list \<Rightarrow> app \<Rightarrow> (exc + string option) \<times> app" where
  "changed_file w min_out [] a = (Inr None, a)"
| "changed_file w min_out (abs_file # rest) a =
     (case mtime w abs_file a of
        (Inl e, a1) \<Rightarrow> (Inl e, a1)
      | (Inr m, a1) \<Rightarrow>
          if m \<ge> min_out then (Inr (Some abs_file), a1)
          else changed_file w min_out rest a1)"

text \<open>\<^verbatim>\<open>str.split()\<close> with no argument: the words between runs of whitespace. Below 256 the
  whitespace characters are the space, the controls 9 to 13 and 28 to 31, the next-line
  character \<open>0x85\<close> and the no-break space \<open>0xA0\<close>.\<close>

definition is_space :: "char \<Rightarrow> bool" where
  "is_space c = (c \<in> set [CHR '' '', CHR 0x09, CHR 0x0A, CHR 0x0B, CHR 0x0C, CHR 0x0D,
                             CHR 0x1C, CHR 0x1D, CHR 0x1E, CHR 0x1F, CHR 0x85, CHR 0xA0])"

fun split_words :: "string \<Rightarrow> string \<Rightarrow> string list" where
  "split_words [] word = (if word = [] then [] else [word])"
| "split_words (c # cs) word =
     (if is_space c then (if word = [] then split_words cs [] else word # split_words cs [])
      else split_words cs (word @ [c]))"

definition py_split :: "string \<Rightarrow> string list" where
  "py_split s = split_words s []"

text \<open>
  Lines 717-726, the lines of one depfile by \<open>depformat\<close>. In the last branch the source
  has \<^verbatim>\<open>raise ValueError(f"Invalid depformat {depformat}")\<close>; the name \<^verbatim>\<open>depformat\<close> is bound
  neither in \<^verbatim>\<open>needs_rerun\<close> nor in the module (the value is \<^verbatim>\<open>self.action.depformat\<close>), so
  building the message raises a NameError and no ValueError is ever made.
\<close>

definition read_deplines :: "env \<Rightarrow> task_action \<Rightarrow> disk_file \<Rightarrow> exc + string list" where
  "read_deplines w t depfile =
     (if depformat t = VStr ''msvc'' then json_includes w (text_of depfile)
      else if depformat t = VStr ''gcc''
        then Inr (filter (\<lambda>d. d \<noteq> [CHR 0x5C]) (drop 1 (py_split (text_of depfile))))
      else Inl (Exc NameError ''name 'depformat' is not defined''))"

text \<open>The loop of lines 711-732 over \<^verbatim>\<open>abs_build_deps\<close>; a depfile that does not exist is
  skipped.\<close>

fun scan_depfiles ::
  "env \<Rightarrow> task_action \<Rightarrow> int \<Rightarrow> string list \<Rightarrow> app \<Rightarrow> (exc + string option) \<times> app" where
  "scan_depfiles w t min_out [] a = (Inr None, a)"
| "scan_depfiles w t min_out (abs_depfile # rest) a =
     (case disk w abs_depfile of
        None \<Rightarrow> scan_depfiles w t min_out rest a
      | Some depfile \<Rightarrow>
          (case read_deplines w t depfile of
             Inl e \<Rightarrow> (Inl e, a)
           | Inr deplines \<Rightarrow>
               (case changed_file w min_out (map (path_join (abs_command_path t)) deplines) a of
                  (Inl e, a1) \<Rightarrow> (Inl e, a1)
                | (Inr (Some abs_file), a1) \<Rightarrow> (Inr (Some abs_file), a1)
                | (Inr None, a1) \<Rightarrow> scan_depfiles w t min_out rest a1)))"

text \<open>The reasons; \<open>str_of_paths\<close> is \<^verbatim>\<open>str\<close> of a list of strings.\<close>

definition str_of_paths :: "string list \<Rightarrow> string" where
  "str_of_paths ps = py_repr (VList (map VStr ps))"

definition has_changed :: "string \<Rightarrow> string" where
  "has_changed abs_file = ''Rebuilding because '' @ abs_file @ '' has changed''"

text \<open>
  \<^verbatim>\<open>Task.needs_rerun(force)\<close>: the reason to rebuild, the empty string when there is none.
  The checks come in the order of the source, each returning at once.
\<close>

definition needs_rerun :: "env \<Rightarrow> bool \<Rightarrow> task_action \<Rightarrow> app \<Rightarrow> (exc + string) \<times> app" where
  "needs_rerun w force t a =
     (if force then (Inr (''Files '' @ str_of_paths (abs_build_files t) @ '' forced to rebuild''), a)
      else if abs_source_files t = [] then (Inr ''Always rebuild a target with no inputs'', a)
      else if abs_build_files t = [] then (Inr ''Always rebuild a target with no outputs'', a)
      else case find (\<lambda>abs_file. disk w abs_file = None) (abs_build_files t) of
        Some abs_file \<Rightarrow> (Inr (''Rebuilding because '' @ abs_file @ '' is missing''), a)
      | None \<Rightarrow>
      (case mtimes w (abs_build_files t) a of
        (Inl e, a1) \<Rightarrow> (Inl e, a1)
      | (Inr ms, a1) \<Rightarrow>
      (case py_min ms of
        Inl e \<Rightarrow> (Inl e, a1)
      | Inr min_out \<Rightarrow>
      (case changed_file w min_out (abs_source_files t) a1 of
        (Inl e, a2) \<Rightarrow> (Inl e, a2)
      | (Inr (Some abs_file), a2) \<Rightarrow> (Inr (has_changed abs_file), a2)
      | (Inr None, a2) \<Rightarrow>
      (case changed_file w min_out (abs_command_files t) a2 of
        (Inl e, a3) \<Rightarrow> (Inl e, a3)
      | (Inr (Some abs_file), a3) \<Rightarrow> (Inr (has_changed abs_file), a3)
      | (Inr None, a3) \<Rightarrow>
      (case changed_file w min_out (loaded_modules a3) a3 of
        (Inl e, a4) \<Rightarrow> (Inl e, a4)
      | (Inr (Some abs_file), a4) \<Rightarrow> (Inr (has_changed abs_file), a4)
      | (Inr None, a4) \<Rightarrow>
      (case scan_depfiles w t min_out (abs_build_deps t) a4 of
        (Inl e, a5) \<Rightarrow> (Inl e, a5)
      | (Inr (Some abs_file), a5) \<Rightarrow> (Inr (has_changed abs_file), a5)
      | (Inr None, a5) \<Rightarrow> (Inr [], a5))))))))"

text \<open>The modification time of a file that exists, for stating properties.\<close>

definition mtime_of :: "env \<Rightarrow> string \<Rightarrow> int" where
  "mtime_of w f = (case disk w f of None \<Rightarrow> 0 | Some x \<Rightarrow> st_mtime_ns x)"

definition min_out_of :: "env \<Rightarrow> task_action \<Rightarrow> int" where
  "min_out_of w t = Min (set (map (mtime_of w) (abs_build_files t)))"

subsection \<open>Template expansion (lines 424-521)\<close>

definition MAX_EXPAND_DEPTH :: int where
  "MAX_EXPAND_DEPTH = 20"

text \<open>
  \<^verbatim>\<open>template_regex.search\<close>, for the pattern \<^verbatim>\<open>{[^}]*}\<close>: the leftmost match starts at the
  first opening brace and ends at the first closing brace after it; the result is the
  text before the match, the match, and the text after it, or \<open>None\<close> when no closing brace
  follows an opening one.
\<close>

definition find_macro :: "string \<Rightarrow> (string \<times> string \<times> string) option" where
  "find_macro s =
     (case dropWhile (\<lambda>c. c \<noteq> CHR ''{'') s of
        [] \<Rightarrow> None
      | brace # r \<Rightarrow>
          (case dropWhile (\<lambda>c. c \<noteq> CHR ''}'') r of
             [] \<Rightarrow> None
           | close # rest \<Rightarrow>
               Some (takeWhile (\<lambda>c. c \<noteq> CHR ''{'') s,
                     ''{'' @ takeWhile (\<lambda>c. c \<noteq> CHR ''}'') r @ ''}'',
                     rest)))"

text \<open>
  \<^verbatim>\<open>macro_regex.search\<close>, for the pattern \<^verbatim>\<open>^{[^}]*}$\<close>: the string starts with an opening
  brace and its first closing brace is its last character, or its last but one before a
  final newline (where Python's \<^verbatim>\<open>$\<close> matches as well).
\<close>

definition is_macro :: "string \<Rightarrow> bool" where
  "is_macro s =
     (case s of
        [] \<Rightarrow> False
      | c # r \<Rightarrow> c = CHR ''{'' \<and>
          (dropWhile (\<lambda>c. c \<noteq> CHR ''}'') r = ''}''
           \<or> dropWhile (\<lambda>c. c \<noteq> CHR ''}'') r = [CHR ''}'', CHR 0x0A]))"

lemma find_macro_shorter: "find_macro s = Some (before, macro, rest) \<Longrightarrow> length rest < length s"
proof -
  assume a: "find_macro s = Some (before, macro, rest)"
  then obtain brace r where r: "dropWhile (\<lambda>c. c \<noteq> CHR ''{'') s = brace # r"
    by (auto simp: find_macro_def split: list.splits)
  with a obtain close where c: "dropWhile (\<lambda>c. c \<noteq> CHR ''}'') r = close # rest"
    by (auto simp: find_macro_def split: list.splits)
  have "length (dropWhile (\<lambda>c. c \<noteq> CHR ''}'') r) \<le> length r" by (rule length_dropWhile_le)
  moreover have "length (dropWhile (\<lambda>c. c \<noteq> CHR ''{'') s) \<le> length s" by (rule length_dropWhile_le)
  ultimately show ?thesis using r c by simp
qed

text \<open>The size of a value, for the termination proof of the expansion.\<close>

fun vsize :: "variant \<Rightarrow> nat" where
  "vsize (VStr s) = length s"
| "vsize (VList vs) = Suc (sum_list (map vsize vs) + length vs)"
| "vsize (VTask p) = Suc (vsize p)"
| "vsize v = 0"

text \<open>
  The expansion works on the application state (the depth counter \<open>expand_depth\<close>) and
  either returns a value or raises: an \<open>outcome\<close>. Python's built-in \<^verbatim>\<open>eval\<close>, which line 510
  calls on the text between the braces with an \<^verbatim>\<open>Expander\<close> as the scope, is not part of
  the source: it is the parameter \<open>ev\<close>, an \<open>evaluator\<close>. It is given the expression, the
  method \<^verbatim>\<open>Expander.get\<close> (by the config of the expander it is called on, and the key), the
  config that the scope wraps, and the state.

  The number \<open>n\<close> bounds how many macro evaluations may be nested in one another: each
  \<open>eval_macro\<close> hands \<open>n - 1\<close> to the field reads of its expression, and the outcome is
  \<open>None\<close> when a macro is to be evaluated with none left. (The source has no such bound;
  \<open>expand_halts\<close> below shows that \<open>MAX_EXPAND_DEPTH + 1\<close> is always enough.)

  Logging and tracing are left out, and with them the colour codes around the message of
  line 446; \<^verbatim>\<open>config.trace\<close> is taken to be the plain flag that the class \<^verbatim>\<open>Config\<close>
  declares, so that reading it does nothing.

  \<^item> \<open>expand\<close> (lines 424-448) dispatches on the value in the order of the \<^verbatim>\<open>match\<close>
    statement; the elements of a list are expanded with the default \<^verbatim>\<open>fail_ok=False\<close>.
  \<^item> \<open>expand_template\<close> (lines 451-477) and its \<^verbatim>\<open>while\<close> loop \<open>template_loop\<close>: the
    counter goes up by one for the loop and down again in the \<^verbatim>\<open>finally\<close> block; each
    macro of the template is evaluated, flattened, turned into strings and joined with
    spaces.
  \<^item> \<open>Expander_get\<close> (lines 491-493) reads the attribute, expands it, and wraps the result
    in a new \<^verbatim>\<open>Expander\<close> when it is a \<^verbatim>\<open>Config\<close>.
  \<^item> \<open>eval_macro\<close> (lines 496-521) raises when the counter exceeds \<open>MAX_EXPAND_DEPTH\<close>;
    otherwise the counter goes up by one, the text between the first and the last
    character is evaluated, and the counter goes down again in the \<^verbatim>\<open>finally\<close> block. An
    exception of the evaluation is raised again unless \<open>fail_ok\<close>, in which case the
    result is the empty string.
\<close>

type_synonym 'a outcome = "((exc + 'a) \<times> app) option"
type_synonym scope_get = "fields \<Rightarrow> string \<Rightarrow> app \<Rightarrow> variant outcome"
type_synonym evaluator = "string \<Rightarrow> scope_get \<Rightarrow> fields \<Rightarrow> app \<Rightarrow> variant outcome"


function expand :: "evaluator \<Rightarrow> nat \<Rightarrow> bool \<Rightarrow> fields \<Rightarrow> variant \<Rightarrow> app \<Rightarrow> variant outcome"
  and expand_list :: "evaluator \<Rightarrow> nat \<Rightarrow> fields \<Rightarrow> variant list \<Rightarrow> app \<Rightarrow> (variant list) outcome"
  and expand_template :: "evaluator \<Rightarrow> nat \<Rightarrow> bool \<Rightarrow> fields \<Rightarrow> string \<Rightarrow> app \<Rightarrow> variant outcome"
  and template_loop :: "evaluator \<Rightarrow> nat \<Rightarrow> bool \<Rightarrow> fields \<Rightarrow> string \<Rightarrow> string \<Rightarrow> app \<Rightarrow> string outcome"
  and Expander_get :: "evaluator \<Rightarrow> nat \<Rightarrow> fields \<Rightarrow> string \<Rightarrow> app \<Rightarrow> variant outcome"
  and eval_macro :: "evaluator \<Rightarrow> nat \<Rightarrow> bool \<Rightarrow> fields \<Rightarrow> string \<Rightarrow> app \<Rightarrow> variant outcome"
where
  "expand ev n fail_ok C v a =
     (case v of
        VConfig c \<Rightarrow> Some (Inr v, a)
      | VDict d \<Rightarrow> Some (Inr v, a)
      | VExc e \<Rightarrow> Some (Inl e, a)
      | VTask p \<Rightarrow> expand ev n fail_ok C p a
      | VList vs \<Rightarrow>
          (case expand_list ev n C vs a of
             None \<Rightarrow> None
           | Some (Inl e, a1) \<Rightarrow> Some (Inl e, a1)
           | Some (Inr xs, a1) \<Rightarrow> Some (Inr (VList xs), a1))
      | VStr s \<Rightarrow>
          if is_macro s then eval_macro ev n fail_ok C s a
          else if find_macro s \<noteq> None then expand_template ev n fail_ok C s a
          else Some (Inr v, a)
      | VInt i \<Rightarrow> Some (Inr v, a)
      | VBool b \<Rightarrow> Some (Inr v, a)
      | VStaticmethod f \<Rightarrow> Some (Inr v, a)
      | VFunction f \<Rightarrow> Some (Inr v, a)
      | _ \<Rightarrow> Some (Inl (Exc ValueError
                 (''Don't know how to expand '' @ type_name v @ '' ='' @ quoted (py_str v))), a))"
| "expand_list ev n C [] a = Some (Inr [], a)"
| "expand_list ev n C (s # rest) a =
     (case expand ev n False C s a of
        None \<Rightarrow> None
      | Some (Inl e, a1) \<Rightarrow> Some (Inl e, a1)
      | Some (Inr x, a1) \<Rightarrow>
          (case expand_list ev n C rest a1 of
             None \<Rightarrow> None
           | Some (Inl e, a2) \<Rightarrow> Some (Inl e, a2)
           | Some (Inr xs, a2) \<Rightarrow> Some (Inr (x # xs), a2)))"
| "expand_template ev n fail_ok C template a =
     (case template_loop ev n fail_ok C template [] (a\<lparr> expand_depth := expand_depth a + 1 \<rparr>) of
        None \<Rightarrow> None
      | Some (Inl err, a1) \<Rightarrow> Some (Inl err, a1\<lparr> expand_depth := expand_depth a1 - 1 \<rparr>)
      | Some (Inr result, a1) \<Rightarrow> Some (Inr (VStr result), a1\<lparr> expand_depth := expand_depth a1 - 1 \<rparr>))"
| "template_loop ev n fail_ok C template result a =
     (case find_macro template of
        None \<Rightarrow> Some (Inr (result @ template), a)
      | Some (before, macro, rest) \<Rightarrow>
          (case eval_macro ev n fail_ok C macro a of
             None \<Rightarrow> None
           | Some (Inl err, a1) \<Rightarrow> Some (Inl err, a1)
           | Some (Inr variant, a1) \<Rightarrow>
               template_loop ev n fail_ok C rest
                 (result @ before @ join_with '' '' (map py_str (flatten variant))) a1))"
| "Expander_get ev n C key a =
     (case getattr C key of
        Inl e \<Rightarrow> Some (Inl e, a)
      | Inr v \<Rightarrow>
          (case expand ev n False C v a of
             None \<Rightarrow> None
           | Some (Inl e, a1) \<Rightarrow> Some (Inl e, a1)
           | Some (Inr expanded, a1) \<Rightarrow>
               Some (Inr (case expanded of VConfig c \<Rightarrow> VExpander c | _ \<Rightarrow> expanded), a1)))"
| "eval_macro ev n fail_ok C macro a =
     (if expand_depth a > MAX_EXPAND_DEPTH
      then Some (Inl (Exc RecursionError
                  (''Expanding '' @ quoted macro @ '' failed to terminate'')), a)
      else case n of
        0 \<Rightarrow> None
      | Suc m \<Rightarrow>
          (case ev (butlast (tl macro)) (\<lambda>C' key a'. Expander_get ev m C' key a') C
                  (a\<lparr> expand_depth := expand_depth a + 1 \<rparr>) of
             None \<Rightarrow> None
           | Some (Inr result, a1) \<Rightarrow> Some (Inr result, a1\<lparr> expand_depth := expand_depth a1 - 1 \<rparr>)
           | Some (Inl err, a1) \<Rightarrow>
               if \<not> fail_ok then Some (Inl err, a1\<lparr> expand_depth := expand_depth a1 - 1 \<rparr>)
               else Some (Inr (VStr []), a1\<lparr> expand_depth := expand_depth a1 - 1 \<rparr>)))"
  by pat_completeness auto
termination
proof (relation "inv_image (less_than <*lex*> less_than)
    (case_sum
      (case_sum (\<lambda>(ev, n, fail_ok, C, v, a). (n, 3 + vsize v))
        (case_sum (\<lambda>(ev, n, C, vs, a). (n, 3 + sum_list (map vsize vs) + length vs))
                  (\<lambda>(ev, n, fail_ok, C, template, a). (n, 2 + length template))))
      (case_sum (\<lambda>(ev, n, fail_ok, C, template, result, a). (n, 1 + length template))
        (case_sum (\<lambda>(ev, n, C, key, a).
                     (n, 4 + (case getattr C key of Inl e \<Rightarrow> 0 | Inr v \<Rightarrow> vsize v)))
                  (\<lambda>(ev, n, fail_ok, C, macro, a). (n, 0::nat)))))", goal_cases)
  case 1
  show ?case by (intro wf_inv_image wf_lex_prod wf_less_than)
next
  case (9 ev n fail_ok C template result a x2 x y xa ya)
  then show ?case using find_macro_shorter[of template x xa ya] by auto
next
  case (10 ev n fail_ok C template result a x2 x y xa ya x2a xaa yb b)
  then show ?case using find_macro_shorter[of template x xa ya] by auto
next
  case (11 ev n C key a b)
  then show ?case by simp
qed auto


lemmas expand_defs = expand.simps expand_list.simps expand_template.simps template_loop.simps
  Expander_get.simps eval_macro.simps

declare expand.simps [simp del] expand_template.simps [simp del] template_loop.simps [simp del]
  Expander_get.simps [simp del] eval_macro.simps [simp del]
















text \<open>A chain of \<open>k + 1\<close> fields, each naming the next, the last one holding a plain
  string: the names are \<open>a\<close>, \<open>aa\<close>, \<open>aaa\<close> and so on, from the \<open>i\<close>-th.\<close>

fun link_name :: "nat \<Rightarrow> string" where
  "link_name i = replicate (Suc i) (CHR ''a'')"



subsection \<open>Awaiting a config and running a task (lines 152-176, 577-622, 978-1018)\<close>

text \<open>
  The tasks of a build are run one after the other, in the order in which they were queued:
  the order in which \<^verbatim>\<open>async_run_tasks\<close> awaits them. \<open>finished\<close> lists what the futures of
  the tasks run so far returned, so the future \<open>VFuture i\<close> has a result when
  \<open>i < length finished\<close> and is still pending otherwise.
\<close>

definition future_result :: "variant list \<Rightarrow> nat \<Rightarrow> variant option" where
  "future_result finished i = (if i < length finished then Some (finished ! i) else None)"

text \<open>
  The loops of \<^verbatim>\<open>_await_variant\<close> over a dict and over a list stop at the first element
  whose walk raises or never returns.
\<close>

fun first_failure :: "(exc + 'a) option list \<Rightarrow> (exc + 'a list) option" where
  "first_failure [] = Some (Inr [])"
| "first_failure (None # rest) = None"
| "first_failure (Some (Inl e) # rest) = Some (Inl e)"
| "first_failure (Some (Inr x) # rest) =
     (case first_failure rest of
        None \<Rightarrow> None
      | Some (Inl e) \<Rightarrow> Some (Inl e)
      | Some (Inr xs) \<Rightarrow> Some (Inr (x # xs)))"

text \<open>
  \<^verbatim>\<open>_await_variant\<close> (lines 152-176), the cases in the order of the \<^verbatim>\<open>match\<close> statement. The
  source replaces the awaitables in place and returns the object it was given; here the
  walk returns the value with the replacements made. A cancellation sentinel is raised. A
  task whose promise is a future is awaited and the walk goes on into what the future
  returned, which becomes the task's promise; a task whose promise is neither \<^verbatim>\<open>None\<close> nor
  awaitable is left as it is. A config is walked through its attribute table, a dict and a
  list element by element, and a bare future is replaced by its result. The result of a
  task can hold further tasks, so the walk is bounded by \<open>n\<close>, the number of task results it
  may enter. \<open>None\<close>: the walk does not return here, because it waits for a task that was
  not queued (its promise is \<^verbatim>\<open>None\<close>: line 160 would queue and run it now) or that has not
  finished, or because \<open>n\<close> is used up.
\<close>

fun await_variant :: "nat \<Rightarrow> variant list \<Rightarrow> variant \<Rightarrow> (exc + variant) option" where
  "await_variant n finished (VExc e) =
     (if isinstance_exc e CancelledError then Some (Inl e) else Some (Inr (VExc e)))"
| "await_variant n finished (VTask VNone) = None"
| "await_variant n finished (VTask (VFuture i)) =
     (case future_result finished i of
        None \<Rightarrow> None
      | Some awaited \<Rightarrow>
          (case n of
             0 \<Rightarrow> None
           | Suc m \<Rightarrow>
               (case await_variant m finished awaited of
                  None \<Rightarrow> None
                | Some (Inl e) \<Rightarrow> Some (Inl e)
                | Some (Inr v) \<Rightarrow> Some (Inr (VTask v)))))"
| "await_variant n finished (VTask v) = Some (Inr (VTask v))"
| "await_variant n finished (VConfig c) =
     (case first_failure (map (\<lambda>(key, v). await_variant n finished v) c) of
        None \<Rightarrow> None
      | Some (Inl e) \<Rightarrow> Some (Inl e)
      | Some (Inr vs) \<Rightarrow> Some (Inr (VConfig (zip (map fst c) vs))))"
| "await_variant n finished (VDict d) =
     (case first_failure (map (\<lambda>(key, v). await_variant n finished v) d) of
        None \<Rightarrow> None
      | Some (Inl e) \<Rightarrow> Some (Inl e)
      | Some (Inr vs) \<Rightarrow> Some (Inr (VDict (zip (map fst d) vs))))"
| "await_variant n finished (VList l) =
     (case first_failure (map (await_variant n finished) l) of
        None \<Rightarrow> None
      | Some (Inl e) \<Rightarrow> Some (Inl e)
      | Some (Inr vs) \<Rightarrow> Some (Inr (VList vs)))"
| "await_variant n finished (VFuture i) =
     (case future_result finished i of
        None \<Rightarrow> None
      | Some awaited \<Rightarrow> Some (Inr awaited))"
| "await_variant n finished v = Some (Inr v)"

text \<open>Python's truth value of a config field (\<^verbatim>\<open>Config\<close> defines neither \<^verbatim>\<open>__bool__\<close> nor
  \<^verbatim>\<open>__len__\<close>).\<close>

fun truthy :: "variant \<Rightarrow> bool" where
  "truthy VNone = False"
| "truthy (VBool b) = b"
| "truthy (VInt i) = (i \<noteq> 0)"
| "truthy (VStr s) = (s \<noteq> [])"
| "truthy (VList l) = (l \<noteq> [])"
| "truthy (VDict d) = (d \<noteq> [])"
| "truthy v = True"

text \<open>
  The \<^verbatim>\<open>except\<close> clauses of a \<^verbatim>\<open>try\<close> statement: the class each one names and what its body
  returns. Python tries the clauses from top to bottom and runs the first one whose class
  the exception is an instance of; when none matches the exception goes on.
\<close>

type_synonym except_clause = "exc_class \<times> (exc \<Rightarrow> app \<Rightarrow> variant \<times> app)"

fun py_except :: "except_clause list \<Rightarrow> exc \<Rightarrow> app \<Rightarrow> (exc + variant) \<times> app" where
  "py_except [] err a = (Inl err, a)"
| "py_except ((c, handler) # rest) err a =
     (if isinstance_exc err c
      then (case handler err a of (v, a1) \<Rightarrow> (Inr v, a1))
      else py_except rest err a)"

text \<open>
  The two \<^verbatim>\<open>except\<close> clauses of \<^verbatim>\<open>run_async\<close>, in the order of the source: lines 609-616
  (\<^verbatim>\<open>except BaseException as err\<close>: count a failure, return a new
  \<^verbatim>\<open>asyncio.CancelledError()\<close>) and lines 620-622 (\<^verbatim>\<open>except asyncio.CancelledError as cancel\<close>:
  count a cancellation, return the exception caught).
\<close>

definition run_async_except :: "except_clause list" where
  "run_async_except =
     [(BaseException,
         \<lambda>err a. (VExc (Exc CancelledError []), a\<lparr> tasks_fail := tasks_fail a + 1 \<rparr>)),
      (CancelledError,
         \<lambda>cancel a. (VExc cancel, a\<lparr> tasks_cancel := tasks_cancel a + 1 \<rparr>))]"

text \<open>
  \<^verbatim>\<open>task_init\<close> (lines 624-675) expands the config into the action, resolves the paths
  against the disk and registers the outputs. Here it is a parameter: a function of the
  task and the application state that gives the action or raises.
\<close>

type_synonym task_init = "task \<Rightarrow> app \<Rightarrow> (exc + task_action) \<times> app"

text \<open>
  The \<^verbatim>\<open>try\<close> block of \<^verbatim>\<open>run_async\<close> after the await (lines 583-605): \<^verbatim>\<open>task_init\<close>, the
  staleness check with \<^verbatim>\<open>self.config.force\<close>, then either the commands, counted in
  \<open>tasks_pass\<close>, or the list of outputs, counted in \<open>tasks_skip\<close>.
\<close>

definition run_async_steps ::
  "env \<Rightarrow> int \<Rightarrow> task_init \<Rightarrow> task \<Rightarrow> app \<Rightarrow> variant outcome" where
  "run_async_steps w jobs init self a =
     (case init self a of
        (Inl e, a1) \<Rightarrow> Some (Inl e, a1)
      | (Inr t, a1) \<Rightarrow>
      (case getattr (config self) ''force'' of
        Inl e \<Rightarrow> Some (Inl e, a1)
      | Inr force \<Rightarrow>
      (case needs_rerun w (truthy force) t a1 of
        (Inl e, a2) \<Rightarrow> Some (Inl e, a2)
      | (Inr why, a2) \<Rightarrow>
          if why \<noteq> []
          then (case run_commands w jobs t a2 of
                  None \<Rightarrow> None
                | Some (Inl e, a3) \<Rightarrow> Some (Inl e, a3)
                | Some (Inr result, a3) \<Rightarrow>
                    Some (Inr result, a3\<lparr> tasks_pass := tasks_pass a3 + 1 \<rparr>))
          else Some (Inr (VList (map VStr (abs_build_files t))),
                     a2\<lparr> tasks_skip := tasks_skip a2 + 1 \<rparr>))))"

text \<open>
  The whole \<^verbatim>\<open>try\<close> block (lines 579-605): the config is awaited first. The walk of a
  config returns a config (lemma \<open>await_variant_Config\<close> below), so the last case does not
  arise.
\<close>

definition run_async_try ::
  "env \<Rightarrow> int \<Rightarrow> task_init \<Rightarrow> nat \<Rightarrow> variant list \<Rightarrow> task \<Rightarrow> app \<Rightarrow> variant outcome" where
  "run_async_try w jobs init n finished self a =
     (case await_variant n finished (VConfig (config self)) of
        None \<Rightarrow> None
      | Some (Inl e) \<Rightarrow> Some (Inl e, a)
      | Some (Inr (VConfig c)) \<Rightarrow> run_async_steps w jobs init (self\<lparr> config := c \<rparr>) a
      | Some (Inr v) \<Rightarrow> None)"

text \<open>\<^verbatim>\<open>Task.run_async\<close> (lines 577-622): the \<^verbatim>\<open>try\<close> block, and its \<^verbatim>\<open>except\<close> clauses on
  what it raises. The result is what the task's future returns.\<close>

definition run_async ::
  "env \<Rightarrow> int \<Rightarrow> task_init \<Rightarrow> nat \<Rightarrow> variant list \<Rightarrow> task \<Rightarrow> app \<Rightarrow> variant outcome" where
  "run_async w jobs init n finished self a =
     (case run_async_try w jobs init n finished self a of
        None \<Rightarrow> None
      | Some (Inr result, a1) \<Rightarrow> Some (Inr result, a1)
      | Some (Inl err, a1) \<Rightarrow> Some (py_except run_async_except err a1))"

text \<open>
  The loop of \<^verbatim>\<open>async_run_tasks\<close> (lines 991-995) over the queued tasks: each task is run
  and its result recorded as the result of its future; an exception that leaves
  \<^verbatim>\<open>run_async\<close> ends the loop. Tasks that a callback creates while the build runs are not
  modelled, so the queue only shrinks.
\<close>

fun run_queued ::
  "env \<Rightarrow> int \<Rightarrow> task_init \<Rightarrow> nat \<Rightarrow> task list \<Rightarrow> variant list \<Rightarrow> app
     \<Rightarrow> (variant list) outcome" where
  "run_queued w jobs init n [] finished a = Some (Inr finished, a)"
| "run_queued w jobs init n (self # rest) finished a =
     (case run_async w jobs init n finished self a of
        None \<Rightarrow> None
      | Some (Inl e, a1) \<Rightarrow> Some (Inl e, a1)
      | Some (Inr result, a1) \<Rightarrow> run_queued w jobs init n rest (finished @ [result]) a1)"

text \<open>
  \<^verbatim>\<open>App.async_run_tasks\<close> (lines 978-1018), from the state in which the tasks are queued
  (the \<open>i\<close>-th of \<open>queued_tasks\<close> has the future \<open>VFuture i\<close>): the job pool is set to
  \<open>jobs\<close> (\<^verbatim>\<open>Config.jobs\<close>), the queue is run, and the exit code is \<open>-1\<close> when a task was
  counted as failed and \<open>0\<close> otherwise. The results of the futures are returned with it.
\<close>

definition async_run_tasks ::
  "env \<Rightarrow> int \<Rightarrow> task_init \<Rightarrow> nat \<Rightarrow> app \<Rightarrow> (int \<times> variant list) outcome" where
  "async_run_tasks w jobs init n a =
     (case run_queued w jobs init n (queued_tasks a) []
             (a\<lparr> jobs_available := jobs, queued_tasks := [] \<rparr>) of
        None \<Rightarrow> None
      | Some (Inl e, a1) \<Rightarrow> Some (Inl e, a1)
      | Some (Inr finished, a1) \<Rightarrow>
          Some (Inr (if tasks_fail a1 \<noteq> 0 then - 1 else 0, finished), a1))"

subsection \<open>Example inputs\<close>

text \<open>
  An environment whose disk holds the listed files (path, modification time, text), where
  every callback returns \<^verbatim>\<open>None\<close> and every subprocess succeeds; and the action of a task
  that compiles \<open>/w/a.c\<close> into \<open>/w/o/a.o\<close> with the depfile \<open>/w/o/a.d\<close>.
\<close>

definition env_of_files :: "(string \<times> int \<times> string) list \<Rightarrow> env" where
  "env_of_files entries =
     \<lparr> call = (\<lambda>f. Inr VNone), shell = (\<lambda>c. 0),
       disk = map_of (map (\<lambda>(p, m, x). (p, \<lparr> st_mtime_ns = m, text_of = x \<rparr>)) entries),
       json_includes = (\<lambda>s. Inr []) \<rparr>"

definition compile_action :: "variant \<Rightarrow> task_action" where
  "compile_action fmt =
     \<lparr> command = [VStr ''cc -c a.c''], depformat = fmt, job_count = 1, dry_run = False,
       abs_command_path = ''/w'', abs_command_files = [],
       abs_source_files = [''/w/a.c''], abs_build_files = [''/w/o/a.o''],
       abs_build_deps = [''/w/o/a.d''] \<rparr>"

text \<open>
  An environment in which every subprocess exits with return code 1; a task with the given
  config; a \<^verbatim>\<open>task_init\<close> that counts the task and gives the action above; and four queued
  tasks, where the command of the first fails and each of the other three holds the first
  task in its config: as a field, inside nested lists, and inside a dict inside a config.
\<close>

definition failing_env :: env where
  "failing_env = (env_of_files [(''/w/a.c'', 1, [])])\<lparr> shell := (\<lambda>c. 1) \<rparr>"

definition task_of :: "fields \<Rightarrow> task" where
  "task_of c = \<lparr> config = c, action = [], reason = VNone, promise = VNone \<rparr>"

definition init_compile :: task_init where
  "init_compile self a =
     (Inr (compile_action (VStr ''gcc'')), a\<lparr> task_counter := task_counter a + 1 \<rparr>)"

definition fanout :: "task list" where
  "fanout =
     [task_of [(''command'', VStr ''cc -c a.c''), (''force'', VBool False)],
      task_of [(''command'', VStr ''cc -c a.c''), (''force'', VBool False),
               (''source_files'', VTask (VFuture 0))],
      task_of [(''command'', VStr ''cc -c a.c''), (''force'', VBool False),
               (''source_files'', VList [VStr ''x.c'', VList [VTask (VFuture 0)]])],
      task_of [(''command'', VStr ''cc -c a.c''), (''force'', VBool False),
               (''flags'', VConfig [(''deps'', VDict [(''lib'', VTask (VFuture 0))])])]]"


(* MODEL ENDS *)

section \<open>Properties of the path utilities\<close>

lemma flatten_collapse_strs: "flatten (collapse (map VStr ys)) = map VStr ys"
proof (cases "length ys = 1")
  case True
  then obtain y where "ys = [y]" by (cases ys) auto
  then show ?thesis by (simp add: collapse_def)
next
  case False
  have "concat (map flatten (map VStr ys)) = map VStr ys" by (induction ys) auto
  with False show ?thesis by (simp add: collapse_def)
qed

lemma join_inner_strs:
  "join_inner (VStr x) (map VStr ys) = Inr (map (\<lambda>y. VStr (path_join x y)) ys)"
  by (induction ys) auto

lemma join_outer_strs:
  "join_outer (map VStr xs) (map VStr ys) =
     Inr (concat (map (\<lambda>x. map (\<lambda>y. VStr (path_join x y)) ys) xs))"
  by (induction xs) (auto simp: join_inner_strs)

lemma join_tuple_Cons: "t \<noteq> [] \<Longrightarrow> join_tuple (x # t) = path_join x (join_tuple t)"
  by (cases t) auto

lemma product_lists_nonempty: "xss \<noteq> [] \<Longrightarrow> t \<in> set (product_lists xss) \<Longrightarrow> t \<noteq> []"
  by (cases xss) auto

lemma cartesian_join_Cons:
  assumes "xss \<noteq> []"
  shows "cartesian_join (xs # xss) =
           concat (map (\<lambda>x. map (path_join x) (cartesian_join xss)) xs)"
proof -
  have "(\<lambda>x. map (\<lambda>t. join_tuple (x # t)) (product_lists xss))
          = (\<lambda>x. map (\<lambda>t. path_join x (join_tuple t)) (product_lists xss))"
    using product_lists_nonempty[OF assms] by (intro ext map_cong) (auto simp: join_tuple_Cons)
  then show ?thesis
    unfolding cartesian_join_def by (simp add: map_concat comp_def)
qed

lemma cartesian_join_single: "cartesian_join [xs] = xs"
  by (simp add: cartesian_join_def comp_def map_concat)

lemma join_path_two_strs:
  assumes "flatten a = map VStr xs" and "flatten b = map VStr ys"
  shows "join_path [a, b] = Inr (spec_join_path [xs, ys])"
proof -
  have "concat (map (\<lambda>x. map (\<lambda>y. VStr (path_join x y)) ys) xs)
          = map VStr (cartesian_join [xs, ys])"
    by (simp add: cartesian_join_Cons cartesian_join_single map_concat comp_def)
  then show ?thesis using assms by (simp add: join_outer_strs spec_join_path_def)
qed

lemma join_path_many_strs:
  "2 \<le> length args \<Longrightarrow> map flatten args = map (map VStr) xss
     \<Longrightarrow> join_path args = Inr (spec_join_path xss)"
proof (induction args arbitrary: xss rule: join_path.induct)
  case 1
  then show ?case by simp
next
  case (2 a)
  then show ?case by simp
next
  case (3 a b)
  then obtain xs ys where "xss = [xs, ys]"
    by (cases xss; cases "tl xss"; cases "tl (tl xss)") auto
  with 3 show ?case using join_path_two_strs[of a xs b ys] by auto
next
  case (4 a b c rest)
  from 4(4) obtain xs yss where xss: "xss = xs # yss" "flatten a = map VStr xs"
      "map flatten (b # c # rest) = map (map VStr) yss"
    by (cases xss) auto
  then have ne: "yss \<noteq> []" by auto
  have tail: "join_path (b # c # rest) = Inr (spec_join_path yss)"
    using 4(1)[OF _ xss(3)] by simp
  have fl: "flatten (spec_join_path yss) = map VStr (cartesian_join yss)"
    by (simp add: spec_join_path_def flatten_collapse_strs)
  have "join_path [a, spec_join_path yss] = Inr (spec_join_path [xs, cartesian_join yss])"
    by (rule join_path_two_strs[OF xss(2) fl])
  moreover have "cartesian_join [xs, cartesian_join yss] = cartesian_join (xs # yss)"
    by (simp add: cartesian_join_Cons[OF ne] cartesian_join_Cons[of "[cartesian_join yss]"]
        cartesian_join_single)
  ultimately show ?case using tail xss(1) by (simp add: spec_join_path_def)
qed

lemma spec_join_path_no_args: "spec_join_path [] = VStr []"
  by (simp add: spec_join_path_def cartesian_join_def collapse_def)

text \<open>
  C6, as the code has it. When the arguments flatten to the string sequences \<open>xss\<close>,
  \<^verbatim>\<open>join_path\<close> of no argument or of two and more arguments returns the Cartesian product of
  those sequences, each tuple joined with \<^verbatim>\<open>os.path.join\<close>, collapsed to a scalar when the
  product has exactly one element. With one argument it returns the one-element list
  holding that argument as it was passed: neither flattened nor collapsed.
\<close>

theorem join_path_cartesian_product:
  assumes "map flatten args = map (map VStr) xss"
  shows "(length args \<noteq> 1 \<longrightarrow> join_path args = Inr (spec_join_path xss))
       \<and> (\<forall>a. args = [a] \<longrightarrow> join_path args = Inr (VList [a]))"
proof -
  have "join_path args = Inr (spec_join_path xss)" if "length args \<noteq> 1"
  proof (cases "args = []")
    case True
    with assms show ?thesis by (simp add: spec_join_path_no_args)
  next
    case False
    with that have "2 \<le> length args" by (cases args; cases "tl args") auto
    then show ?thesis using assms by (rule join_path_many_strs)
  qed
  then show ?thesis by simp
qed

theorem join_path_cartesian_product_witness:
  "map flatten [VStr ''a'', VList [VStr ''b'', VList [VStr ''c'']], VStr ''d'']
      = map (map VStr) [[''a''], [''b'', ''c''], [''d'']]
   \<and> join_path [VStr ''a'', VList [VStr ''b'', VList [VStr ''c'']], VStr ''d'']
      = Inr (VList [VStr ''a/b/d'', VStr ''a/c/d''])"
  using join_path_cartesian_product
    [of "[VStr ''a'', VList [VStr ''b'', VList [VStr ''c'']], VStr ''d'']"
        "[[''a''], [''b'', ''c''], [''d'']]"]
  by (simp add: spec_join_path_def cartesian_join_def collapse_def path_join_def is_abs_def
      ends_with_sep_def)

text \<open>
  C6 as stated fails for one argument: the product of the single sequence \<open>[src]\<close> has
  exactly one element, so the claim has \<^verbatim>\<open>join_path("src")\<close> collapse to the scalar \<open>src\<close>;
  the code returns the list \<^verbatim>\<open>["src"]\<close>.
\<close>

theorem join_path_one_argument_counterexample:
  "spec_join_path [[''src'']] = VStr ''src''
   \<and> join_path [VStr ''src''] = Inr (VList [VStr ''src''])
   \<and> join_path [VStr ''src''] \<noteq> Inr (spec_join_path [[''src'']])"
  by (simp add: spec_join_path_def cartesian_join_def collapse_def)

text \<open>
  C9, as the code has it. For every base path that does not end with the separator and
  every relative path \<open>p\<close> (one that does not start with the separator; whether it has
  \<^verbatim>\<open>..\<close> segments does not matter), \<^verbatim>\<open>rel_path(join_path(base, p), base)\<close> is \<open>p\<close>.
\<close>

theorem rel_path_join_path_roundtrip:
  assumes "\<not> is_abs p" and "\<not> ends_with_sep base"
  shows "\<exists>j. join_path [VStr base, VStr p] = Inr j \<and> rel_path j base = Inr (VStr p)"
proof -
  have j: "join_path [VStr base, VStr p] = Inr (VStr (path_join base p))"
    by (simp add: collapse_def)
  have "rel_path (VStr (path_join base p)) base = Inr (VStr p)"
  proof (cases "base = []")
    case True
    with assms show ?thesis
      by (cases p) (auto simp: path_join_def removeprefix_def is_abs_def)
  next
    case False
    with assms show ?thesis
      by (auto simp: path_join_def removeprefix_def)
  qed
  with j show ?thesis by simp
qed

theorem rel_path_join_path_roundtrip_witness:
  "\<not> is_abs ''obj/a.o'' \<and> \<not> ends_with_sep ''/work''
   \<and> (\<exists>j. join_path [VStr ''/work'', VStr ''obj/a.o''] = Inr j
          \<and> rel_path j ''/work'' = Inr (VStr ''obj/a.o''))"
  using rel_path_join_path_roundtrip [of "''obj/a.o''" "''/work''"]
  by (simp add: is_abs_def ends_with_sep_def)

text \<open>
  C9 as stated fails for a base that ends with the separator: the join adds no second
  separator, so the prefix \<^verbatim>\<open>base + "/"\<close> that \<^verbatim>\<open>rel_path\<close> strips is not there.
\<close>

theorem rel_path_join_path_counterexample:
  "\<not> is_abs ''a.o''
   \<and> join_path [VStr ''/work/'', VStr ''a.o''] = Inr (VStr ''/work/a.o'')
   \<and> rel_path (VStr ''/work/a.o'') ''/work/'' = Inr (VStr ''/work/a.o'')
   \<and> rel_path (VStr ''/work/a.o'') ''/work/'' \<noteq> Inr (VStr ''a.o'')"
  by (simp add: is_abs_def collapse_def path_join_def ends_with_sep_def removeprefix_def)

section \<open>Properties of task construction and output registration\<close>

lemma Task_init_registers:
  assumes "dirstack a \<noteq> []"
    and "getattr (Task_config root (last (dirstack a)) args kwargs) ''command'' = Inr c"
    and "c \<noteq> VNone"
  shows "\<exists>t. Task_init root args kwargs a =
           (Inr t, a\<lparr> tasks_total := tasks_total a + 1, pending_tasks := pending_tasks a @ [t] \<rparr>)"
  using assms by (simp add: Task_init_def topdir_def Let_def)

lemma Task_init_raises_unchanged:
  "isl (fst (Task_init root args kwargs a)) \<Longrightarrow> snd (Task_init root args kwargs a) = a"
  by (auto simp: Task_init_def topdir_def Let_def split: sum.splits if_splits)

text \<open>
  C10. Constructing a task whose merged config has \<^verbatim>\<open>command\<close> equal to \<^verbatim>\<open>None\<close> raises
  the missing-command error and returns the application state as it was: \<open>tasks_total\<close>,
  the pending queue and every other field are unchanged.
\<close>

theorem Task_init_missing_command:
  assumes "dirstack a \<noteq> []"
    and "getattr (Task_config root (last (dirstack a)) args kwargs) ''command'' = Inr VNone"
  shows "Task_init root args kwargs a = (Inl (Exc ValueError ''Task has no command''), a)"
  using assms by (simp add: Task_init_def topdir_def Let_def)

theorem Task_init_missing_command_witness:
  "dirstack (App_init 4 ''/w'') \<noteq> []
   \<and> getattr (Task_config ''/w'' (last (dirstack (App_init 4 ''/w'')))
                [[(''build_files'', VStr ''a.o'')]] [(''command'', VNone)]) ''command'' = Inr VNone
   \<and> Task_init ''/w'' [[(''build_files'', VStr ''a.o'')]] [(''command'', VNone)] (App_init 4 ''/w'')
       = (Inl (Exc ValueError ''Task has no command''), App_init 4 ''/w'')"
proof -
  have d: "dirstack (App_init 4 ''/w'') \<noteq> []"
    by (simp add: App_init_def)
  have c: "getattr (Task_config ''/w'' (last (dirstack (App_init 4 ''/w'')))
                [[(''build_files'', VStr ''a.o'')]] [(''command'', VNone)]) ''command'' = Inr VNone"
    by (simp add: App_init_def Task_config_def Config_init_def Task_defaults_def getattr_def
        merge_def update_config_def)
  show ?thesis using d c Task_init_missing_command [OF d c] by simp
qed

lemma task_init_outputs_raises_iff:
  "isl (fst (task_init_outputs files a))
     \<longleftrightarrow> (\<not> distinct files \<or> set files \<inter> all_build_files a \<noteq> {})"
proof (induction files arbitrary: a)
  case Nil
  then show ?case by simp
next
  case (Cons f rest)
  show ?case
  proof (cases "f \<in> all_build_files a")
    case True
    then show ?thesis by auto
  next
    case False
    then show ?thesis
      using Cons.IH[of "a\<lparr> all_build_files := insert f (all_build_files a) \<rparr>"]
      by auto
  qed
qed

lemma task_init_outputs_error:
  "fst (task_init_outputs files a) = Inl e \<Longrightarrow> \<exists>f \<in> set files. e = multiple_rules f"
  by (induction files arbitrary: a) (auto split: if_splits)

lemma task_init_outputs_ok:
  "fst (task_init_outputs files a) = Inr () \<Longrightarrow>
     snd (task_init_outputs files a) = a\<lparr> all_build_files := all_build_files a \<union> set files \<rparr>"
  by (induction files arbitrary: a) (auto split: if_splits)

lemma task_init_outputs_grows:
  "all_build_files a \<subseteq> all_build_files (snd (task_init_outputs files a))"
proof (induction files arbitrary: a)
  case Nil
  then show ?case by simp
next
  case (Cons f rest)
  show ?case
    using Cons.IH[of "a\<lparr> all_build_files := insert f (all_build_files a) \<rparr>"] by auto
qed

lemma task_init_outputs_all_grows:
  "all_build_files a \<subseteq> all_build_files (snd (task_init_outputs_all tasks a))"
proof (induction tasks arbitrary: a)
  case Nil
  then show ?case by simp
next
  case (Cons files rest)
  obtain r a' where h: "task_init_outputs files a = (r, a')"
    by (cases "task_init_outputs files a")
  have "all_build_files a \<subseteq> all_build_files a'"
    using task_init_outputs_grows[of a files] h by simp
  moreover have "all_build_files a' \<subseteq> all_build_files (snd (task_init_outputs_all rest a'))"
    by (rule Cons.IH)
  ultimately show ?case using h by (auto split: prod.splits)
qed

lemma task_init_outputs_all_ok:
  "i < length tasks \<Longrightarrow> fst (task_init_outputs_all tasks a) ! i = Inr () \<Longrightarrow>
     distinct (tasks ! i) \<and> set (tasks ! i) \<inter> all_build_files a = {}
     \<and> set (tasks ! i) \<subseteq> all_build_files (snd (task_init_outputs_all tasks a))"
proof (induction tasks arbitrary: a i)
  case Nil
  then show ?case by simp
next
  case (Cons files rest)
  obtain r a' where h: "task_init_outputs files a = (r, a')"
    by (cases "task_init_outputs files a")
  obtain rs a'' where h2: "task_init_outputs_all rest a' = (rs, a'')"
    by (cases "task_init_outputs_all rest a'")
  have g1: "all_build_files a \<subseteq> all_build_files a'"
    using task_init_outputs_grows[of a files] h by simp
  have g2: "all_build_files a' \<subseteq> all_build_files a''"
    using task_init_outputs_all_grows[of a' rest] h2 by simp
  show ?case
  proof (cases i)
    case 0
    with Cons.prems h h2 have ok: "fst (task_init_outputs files a) = Inr ()" by simp
    then have "\<not> (\<not> distinct files \<or> set files \<inter> all_build_files a \<noteq> {})"
      using task_init_outputs_raises_iff[of files a] by auto
    moreover have "all_build_files a' = all_build_files a \<union> set files"
      using task_init_outputs_ok[OF ok] h by simp
    ultimately show ?thesis using 0 h h2 g2 by auto
  next
    case (Suc k)
    with Cons.prems h h2
    have "k < length rest" "fst (task_init_outputs_all rest a') ! k = Inr ()" by auto
    from Cons.IH[OF this] show ?thesis using Suc h h2 g1 by auto
  qed
qed

lemma task_init_outputs_all_disjoint:
  "i < j \<Longrightarrow> j < length tasks \<Longrightarrow> fst (task_init_outputs_all tasks a) ! i = Inr ()
     \<Longrightarrow> fst (task_init_outputs_all tasks a) ! j = Inr ()
     \<Longrightarrow> set (tasks ! i) \<inter> set (tasks ! j) = {}"
proof (induction tasks arbitrary: a i j)
  case Nil
  then show ?case by simp
next
  case (Cons files rest)
  obtain r a' where h: "task_init_outputs files a = (r, a')"
    by (cases "task_init_outputs files a")
  obtain rs a'' where h2: "task_init_outputs_all rest a' = (rs, a'')"
    by (cases "task_init_outputs_all rest a'")
  from Cons.prems obtain j' where j: "j = Suc j'" by (cases j) auto
  with Cons.prems h h2
  have jok: "j' < length rest" "fst (task_init_outputs_all rest a') ! j' = Inr ()" by auto
  show ?case
  proof (cases i)
    case 0
    with Cons.prems h h2 have ok: "fst (task_init_outputs files a) = Inr ()" by simp
    have "all_build_files a' = all_build_files a \<union> set files"
      using task_init_outputs_ok[OF ok] h by simp
    moreover have "set (rest ! j') \<inter> all_build_files a' = {}"
      using task_init_outputs_all_ok[OF jok] by simp
    ultimately show ?thesis using 0 j by auto
  next
    case (Suc k)
    with Cons.prems h h2 j
    have "k < j'" "fst (task_init_outputs_all rest a') ! k = Inr ()" by auto
    from Cons.IH[OF this(1) jok(1) this(2) jok(2)] show ?thesis using Suc j by simp
  qed
qed

text \<open>
  C3, as the code has it. The registration loop of \<^verbatim>\<open>task_init\<close> raises exactly when one of
  the task's \<open>abs_build_files\<close> is already in \<open>all_build_files\<close> when the loop reaches it:
  it was registered by an earlier call, or it stands twice in the task's own list. The
  error names one of the task's files. A call that does not raise registers every one of
  the task's files. Over the tasks of a build, in order, any two tasks whose registration
  succeeded declare disjoint outputs, and all their outputs are in the final set.
\<close>

theorem task_init_outputs_unique:
  "(isl (fst (task_init_outputs files a))
      \<longleftrightarrow> (\<not> distinct files \<or> set files \<inter> all_build_files a \<noteq> {}))
   \<and> (\<forall>e. fst (task_init_outputs files a) = Inl e \<longrightarrow> (\<exists>f \<in> set files. e = multiple_rules f))
   \<and> (fst (task_init_outputs files a) = Inr () \<longrightarrow>
        all_build_files (snd (task_init_outputs files a)) = all_build_files a \<union> set files)
   \<and> (\<forall>i j. i < j \<and> j < length tasks
          \<and> fst (task_init_outputs_all tasks a) ! i = Inr ()
          \<and> fst (task_init_outputs_all tasks a) ! j = Inr ()
        \<longrightarrow> set (tasks ! i) \<inter> set (tasks ! j) = {})
   \<and> (\<forall>i. i < length tasks \<and> fst (task_init_outputs_all tasks a) ! i = Inr ()
        \<longrightarrow> set (tasks ! i) \<subseteq> all_build_files (snd (task_init_outputs_all tasks a)))"
proof (intro conjI allI impI)
  show "isl (fst (task_init_outputs files a))
      \<longleftrightarrow> (\<not> distinct files \<or> set files \<inter> all_build_files a \<noteq> {})"
    by (rule task_init_outputs_raises_iff)
next
  fix e assume "fst (task_init_outputs files a) = Inl e"
  then show "\<exists>f \<in> set files. e = multiple_rules f"
    by (rule task_init_outputs_error)
next
  assume "fst (task_init_outputs files a) = Inr ()"
  then show "all_build_files (snd (task_init_outputs files a)) = all_build_files a \<union> set files"
    by (simp add: task_init_outputs_ok)
next
  fix i j
  assume "i < j \<and> j < length tasks
          \<and> fst (task_init_outputs_all tasks a) ! i = Inr ()
          \<and> fst (task_init_outputs_all tasks a) ! j = Inr ()"
  then show "set (tasks ! i) \<inter> set (tasks ! j) = {}"
    using task_init_outputs_all_disjoint[of i j tasks a] by blast
next
  fix i
  assume "i < length tasks \<and> fst (task_init_outputs_all tasks a) ! i = Inr ()"
  then show "set (tasks ! i) \<subseteq> all_build_files (snd (task_init_outputs_all tasks a))"
    using task_init_outputs_all_ok[of i tasks a] by blast
qed

theorem task_init_outputs_unique_witness:
  "isl (fst (task_init_outputs [''/o/a'', ''/o/a''] (App_init 4 ''/w'')))
   \<and> \<not> distinct [''/o/a'', ''/o/a'']
   \<and> fst (task_init_outputs [''/o/a'', ''/o/b''] (App_init 4 ''/w'')) = Inr ()
   \<and> all_build_files (snd (task_init_outputs [''/o/a'', ''/o/b''] (App_init 4 ''/w'')))
       = {''/o/a'', ''/o/b''}
   \<and> fst (task_init_outputs_all [[''/o/a''], [''/o/a''], [''/o/c'']] (App_init 4 ''/w''))
       = [Inr (), Inl (multiple_rules ''/o/a''), Inr ()]
   \<and> set ([[''/o/a''], [''/o/a''], [''/o/c'']] ! 0) \<inter> set ([[''/o/a''], [''/o/a''], [''/o/c'']] ! 2) = {}"
  using task_init_outputs_unique
    [of "[''/o/a'', ''/o/a'']" "App_init 4 ''/w''" "[[''/o/a''], [''/o/a''], [''/o/c'']]"]
    task_init_outputs_unique
    [of "[''/o/a'', ''/o/b'']" "App_init 4 ''/w''" "[[''/o/a''], [''/o/a''], [''/o/c'']]"]
  by (simp add: App_init_def insert_commute)

text \<open>
  C3 as stated fails twice. A task that lists one path twice raises although no earlier
  task registered anything. And a task that raises leaves the paths it had already added
  in the set: below, the second task registers \<open>/o/b\<close> and then raises on \<open>/o/a\<close>, so
  \<open>/o/b\<close> is in \<open>all_build_files\<close> although no task that was initialised declares it,
  and the third task, the only other one to declare it, is refused as well.
\<close>

theorem task_init_outputs_counterexample:
  "all_build_files (App_init 4 ''/w'') = {}
   \<and> fst (task_init_outputs [''/o/a'', ''/o/a''] (App_init 4 ''/w'')) = Inl (multiple_rules ''/o/a'')
   \<and> fst (task_init_outputs_all [[''/o/a''], [''/o/b'', ''/o/a''], [''/o/b'']] (App_init 4 ''/w''))
       = [Inr (), Inl (multiple_rules ''/o/a''), Inl (multiple_rules ''/o/b'')]
   \<and> ''/o/b'' \<in> all_build_files
        (snd (task_init_outputs_all [[''/o/a''], [''/o/b'', ''/o/a''], [''/o/b'']] (App_init 4 ''/w'')))"
  by (simp add: App_init_def)

section \<open>Properties of the job pool\<close>

lemma run_commands_balanced:
  "job_count t \<le> jobs \<Longrightarrow> run_commands w jobs t a = Some (r, a') \<Longrightarrow> a' = a"
  by (auto simp: run_commands_def acquire_jobs_def release_jobs_def split: if_splits)

lemma run_commands_overflow:
  "jobs < job_count t \<Longrightarrow>
     \<exists>m. run_commands w jobs t a =
       Some (Inl (Exc ValueError m), a\<lparr> jobs_available := jobs_available a + job_count t \<rparr>)"
  by (auto simp: run_commands_def acquire_jobs_def release_jobs_def split: if_splits)

text \<open>
  C7 fails on the path where the acquisition itself fails. With a pool of 4 jobs, all
  free, a task that asks for 5 is refused by \<^verbatim>\<open>acquire_jobs\<close>, which takes nothing; the
  call stands inside the \<^verbatim>\<open>try\<close> block, so the \<^verbatim>\<open>finally\<close> block still releases 5 jobs and
  the pool ends at 9. (On the other paths the pool returns to its value:
  \<open>run_commands_balanced\<close>.)
\<close>

theorem run_commands_releases_unacquired_jobs:
  "run_commands w 4 (t\<lparr> job_count := 5 \<rparr>) (App_init 4 cwd)
     = Some (Inl (Exc ValueError ''Nedd 5 jobs, but pool is 4.''),
             (App_init 4 cwd)\<lparr> jobs_available := 9 \<rparr>)"
  by (simp add: run_commands_def acquire_jobs_def release_jobs_def App_init_def str_int_def)

section \<open>Properties of the staleness check\<close>

lemma mtime_modules: "loaded_modules (snd (mtime w f a)) = loaded_modules a"
  by (simp add: mtime_def)

lemma mtime_exists: "disk w f \<noteq> None \<Longrightarrow> fst (mtime w f a) = Inr (mtime_of w f)"
  by (auto simp: mtime_def mtime_of_def)

lemma mtimes_modules: "loaded_modules (snd (mtimes w fs a)) = loaded_modules a"
proof (induction fs arbitrary: a)
  case Nil then show ?case by simp
next
  case (Cons f fs)
  obtain r a1 where m: "mtime w f a = (r, a1)" by (cases "mtime w f a")
  then have l: "loaded_modules a1 = loaded_modules a" using mtime_modules[of w f a] by simp
  show ?case using m l Cons.IH[of a1] by (auto split: sum.splits prod.splits)
qed

lemma mtimes_exist:
  "\<forall>f \<in> set fs. disk w f \<noteq> None \<Longrightarrow> fst (mtimes w fs a) = Inr (map (mtime_of w) fs)"
proof (induction fs arbitrary: a)
  case Nil then show ?case by simp
next
  case (Cons f fs)
  obtain r a1 where m: "mtime w f a = (r, a1)" by (cases "mtime w f a")
  with Cons.prems have r: "r = Inr (mtime_of w f)" using mtime_exists[of w f a] by simp
  have "fst (mtimes w fs a1) = Inr (map (mtime_of w) fs)" using Cons by simp
  then show ?case using m r by (auto split: sum.splits prod.splits)
qed

lemma py_min_Min: "ms \<noteq> [] \<Longrightarrow> py_min ms = Inr (Min (set ms))"
proof -
  assume "ms \<noteq> []"
  then obtain m rest where ms: "ms = m # rest" by (cases ms) auto
  have "Min (set (m # rest)) = fold min rest m" by (rule Min.set_eq_fold)
  then show ?thesis unfolding ms by (simp only: py_min.simps)
qed

lemma find_missing_none: "\<forall>f \<in> set fs. disk w f \<noteq> None \<Longrightarrow> find (\<lambda>f. disk w f = None) fs = None"
  by (induction fs) auto

lemma changed_file_modules: "loaded_modules (snd (changed_file w m fs a)) = loaded_modules a"
proof (induction fs arbitrary: a)
  case Nil then show ?case by simp
next
  case (Cons f fs)
  obtain r a1 where m: "mtime w f a = (r, a1)" by (cases "mtime w f a")
  then have l: "loaded_modules a1 = loaded_modules a" using mtime_modules[of w f a] by simp
  show ?case using m l Cons.IH[of a1] by (auto split: sum.splits prod.splits)
qed

lemma changed_file_found:
  "\<forall>f \<in> set fs. disk w f \<noteq> None \<Longrightarrow> \<exists>f \<in> set fs. m \<le> mtime_of w f
     \<Longrightarrow> \<exists>g \<in> set fs. fst (changed_file w m fs a) = Inr (Some g)"
proof (induction fs arbitrary: a)
  case Nil then show ?case by simp
next
  case (Cons f fs)
  obtain r a1 where mt: "mtime w f a = (r, a1)" by (cases "mtime w f a")
  with Cons.prems have r: "r = Inr (mtime_of w f)" using mtime_exists[of w f a] by simp
  show ?case
  proof (cases "m \<le> mtime_of w f")
    case True
    then show ?thesis using mt r by simp
  next
    case False
    with Cons.prems have "\<exists>f \<in> set fs. m \<le> mtime_of w f" by auto
    with Cons have "\<exists>g \<in> set fs. fst (changed_file w m fs a1) = Inr (Some g)" by simp
    then show ?thesis using mt r False by auto
  qed
qed

lemma changed_file_none:
  "\<forall>f \<in> set fs. disk w f \<noteq> None \<and> mtime_of w f < m
     \<Longrightarrow> fst (changed_file w m fs a) = Inr None"
proof (induction fs arbitrary: a)
  case Nil then show ?case by simp
next
  case (Cons f fs)
  obtain r a1 where mt: "mtime w f a = (r, a1)" by (cases "mtime w f a")
  with Cons.prems have r: "r = Inr (mtime_of w f)" using mtime_exists[of w f a] by simp
  have "fst (changed_file w m fs a1) = Inr None" using Cons by simp
  then show ?case using mt r Cons.prems by auto
qed

lemma changed_file_total:
  "\<forall>f \<in> set fs. disk w f \<noteq> None \<Longrightarrow> \<exists>r. fst (changed_file w m fs a) = Inr r"
proof (induction fs arbitrary: a)
  case Nil then show ?case by simp
next
  case (Cons f fs)
  obtain r a1 where mt: "mtime w f a = (r, a1)" by (cases "mtime w f a")
  with Cons.prems have r: "r = Inr (mtime_of w f)" using mtime_exists[of w f a] by simp
  have "\<exists>r. fst (changed_file w m fs a1) = Inr r" using Cons by simp
  then show ?case using mt r by auto
qed

lemma has_changed_nonempty: "has_changed f \<noteq> []"
  by (simp add: has_changed_def)

text \<open>
  C2. For a task with source files and build files, all of them on disk (as are its
  command files: \<^verbatim>\<open>task_init\<close> resolves sources and command files strictly), a source or
  command file whose modification time is at least \<open>min_out\<close>, the least modification
  time of the build files, makes \<^verbatim>\<open>needs_rerun\<close> return a reason that is not empty,
  forced or not. Equal times are enough.
\<close>

theorem needs_rerun_newer_source:
  assumes src: "abs_source_files t \<noteq> []" and bld: "abs_build_files t \<noteq> []"
    and bex: "\<forall>f \<in> set (abs_build_files t). disk w f \<noteq> None"
    and sex: "\<forall>f \<in> set (abs_source_files t @ abs_command_files t). disk w f \<noteq> None"
    and newer: "\<exists>f \<in> set (abs_source_files t @ abs_command_files t).
                  min_out_of w t \<le> mtime_of w f"
  shows "\<exists>r. fst (needs_rerun w force t a) = Inr r \<and> r \<noteq> []"
proof (cases force)
  case True
  then show ?thesis by (simp add: needs_rerun_def)
next
  case False
  obtain r1 a1 where m1: "mtimes w (abs_build_files t) a = (r1, a1)"
    by (cases "mtimes w (abs_build_files t) a")
  have r1: "r1 = Inr (map (mtime_of w) (abs_build_files t))"
    using mtimes_exist[OF bex, of a] m1 by simp
  have mn: "py_min (map (mtime_of w) (abs_build_files t)) = Inr (min_out_of w t)"
    using bld by (simp add: py_min_Min min_out_of_def)
  obtain r2 a2 where c2: "changed_file w (min_out_of w t) (abs_source_files t) a1 = (r2, a2)"
    by (cases "changed_file w (min_out_of w t) (abs_source_files t) a1")
  obtain r3 a3 where c3: "changed_file w (min_out_of w t) (abs_command_files t) a2 = (r3, a3)"
    by (cases "changed_file w (min_out_of w t) (abs_command_files t) a2")
  from sex have sx: "\<forall>f \<in> set (abs_source_files t). disk w f \<noteq> None"
    and cx: "\<forall>f \<in> set (abs_command_files t). disk w f \<noteq> None" by auto
  obtain x2 where x2: "r2 = Inr x2"
    using changed_file_total[OF sx, of "min_out_of w t" a1] c2 by auto
  have pre: "needs_rerun w force t a =
    (case r2 of Inl e \<Rightarrow> (Inl e, a2)
      | Inr (Some abs_file) \<Rightarrow> (Inr (has_changed abs_file), a2)
      | Inr None \<Rightarrow> (case changed_file w (min_out_of w t) (abs_command_files t) a2 of
        (Inl e, a3) \<Rightarrow> (Inl e, a3)
      | (Inr (Some abs_file), a3) \<Rightarrow> (Inr (has_changed abs_file), a3)
      | (Inr None, a3) \<Rightarrow>
      (case changed_file w (min_out_of w t) (loaded_modules a3) a3 of
        (Inl e, a4) \<Rightarrow> (Inl e, a4)
      | (Inr (Some abs_file), a4) \<Rightarrow> (Inr (has_changed abs_file), a4)
      | (Inr None, a4) \<Rightarrow>
      (case scan_depfiles w t (min_out_of w t) (abs_build_deps t) a4 of
        (Inl e, a5) \<Rightarrow> (Inl e, a5)
      | (Inr (Some abs_file), a5) \<Rightarrow> (Inr (has_changed abs_file), a5)
      | (Inr None, a5) \<Rightarrow> (Inr [], a5)))))"
    using False src bld find_missing_none[OF bex] m1 r1 mn c2
    by (simp add: needs_rerun_def)
  show ?thesis
  proof (cases x2)
    case (Some g)
    then show ?thesis using pre x2 by (simp add: has_changed_nonempty)
  next
    case None
    have "\<not> (\<exists>f \<in> set (abs_source_files t). min_out_of w t \<le> mtime_of w f)"
    proof
      assume "\<exists>f \<in> set (abs_source_files t). min_out_of w t \<le> mtime_of w f"
      from changed_file_found[OF sx this, of a1] show False using c2 x2 None by auto
    qed
    with newer have "\<exists>f \<in> set (abs_command_files t). min_out_of w t \<le> mtime_of w f" by auto
    from changed_file_found[OF cx this, of a2] obtain g where "r3 = Inr (Some g)"
      using c3 by auto
    then show ?thesis using pre x2 None c3 by (simp add: has_changed_nonempty)
  qed
qed

theorem needs_rerun_newer_source_witness:
  "abs_source_files (compile_action (VStr ''gcc'')) \<noteq> []
   \<and> abs_build_files (compile_action (VStr ''gcc'')) \<noteq> []
   \<and> disk (env_of_files [(''/w/a.c'', 7, []), (''/w/o/a.o'', 7, [])]) ''/w/o/a.o'' \<noteq> None
   \<and> disk (env_of_files [(''/w/a.c'', 7, []), (''/w/o/a.o'', 7, [])]) ''/w/a.c'' \<noteq> None
   \<and> min_out_of (env_of_files [(''/w/a.c'', 7, []), (''/w/o/a.o'', 7, [])])
        (compile_action (VStr ''gcc'')) = 7
   \<and> mtime_of (env_of_files [(''/w/a.c'', 7, []), (''/w/o/a.o'', 7, [])]) ''/w/a.c'' = 7
   \<and> (\<exists>r. fst (needs_rerun (env_of_files [(''/w/a.c'', 7, []), (''/w/o/a.o'', 7, [])]) False
               (compile_action (VStr ''gcc'')) (App_init 4 ''/w'')) = Inr r \<and> r \<noteq> [])"
  using needs_rerun_newer_source
    [of "compile_action (VStr ''gcc'')"
        "env_of_files [(''/w/a.c'', 7, []), (''/w/o/a.o'', 7, [])]" False "App_init 4 ''/w''"]
  by (simp add: compile_action_def env_of_files_def min_out_of_def mtime_of_def)

lemma scan_depfiles_invalid:
  assumes "depformat t \<noteq> VStr ''gcc''" and "depformat t \<noteq> VStr ''msvc''"
  shows "\<exists>d \<in> set deps. disk w d \<noteq> None \<Longrightarrow>
    scan_depfiles w t m deps a = (Inl (Exc NameError ''name 'depformat' is not defined''), a)"
  using assms by (induction deps) (auto simp: read_deplines_def split: option.splits)

text \<open>
  What the code does when the scan of the depfiles meets a depformat it does not know:
  the exception is the NameError of the unbound name in the message, and the message does
  not hold the depformat.
\<close>

lemma needs_rerun_invalid_depformat_NameError:
  assumes nf: "\<not> force" and src: "abs_source_files t \<noteq> []" and bld: "abs_build_files t \<noteq> []"
    and bex: "\<forall>f \<in> set (abs_build_files t). disk w f \<noteq> None"
    and old: "\<forall>f \<in> set (abs_source_files t @ abs_command_files t @ loaded_modules a).
                 disk w f \<noteq> None \<and> mtime_of w f < min_out_of w t"
    and dep: "\<exists>d \<in> set (abs_build_deps t). disk w d \<noteq> None"
    and fmt: "depformat t \<noteq> VStr ''gcc''" "depformat t \<noteq> VStr ''msvc''"
  shows "fst (needs_rerun w force t a) = Inl (Exc NameError ''name 'depformat' is not defined'')"
proof -
  obtain r1 a1 where m1: "mtimes w (abs_build_files t) a = (r1, a1)"
    by (cases "mtimes w (abs_build_files t) a")
  have r1: "r1 = Inr (map (mtime_of w) (abs_build_files t))"
    using mtimes_exist[OF bex, of a] m1 by simp
  have l1: "loaded_modules a1 = loaded_modules a"
    using mtimes_modules[of w "abs_build_files t" a] m1 by simp
  have mn: "py_min (map (mtime_of w) (abs_build_files t)) = Inr (min_out_of w t)"
    using bld by (simp add: py_min_Min min_out_of_def)
  obtain r2 a2 where c2: "changed_file w (min_out_of w t) (abs_source_files t) a1 = (r2, a2)"
    by (cases "changed_file w (min_out_of w t) (abs_source_files t) a1")
  have r2: "r2 = Inr None"
    using changed_file_none[of "abs_source_files t" w "min_out_of w t" a1] old c2 by auto
  have l2: "loaded_modules a2 = loaded_modules a"
    using changed_file_modules[of w "min_out_of w t" "abs_source_files t" a1] c2 l1 by simp
  obtain r3 a3 where c3: "changed_file w (min_out_of w t) (abs_command_files t) a2 = (r3, a3)"
    by (cases "changed_file w (min_out_of w t) (abs_command_files t) a2")
  have r3: "r3 = Inr None"
    using changed_file_none[of "abs_command_files t" w "min_out_of w t" a2] old c3 by auto
  have l3: "loaded_modules a3 = loaded_modules a"
    using changed_file_modules[of w "min_out_of w t" "abs_command_files t" a2] c3 l2 by simp
  obtain r4 a4 where c4: "changed_file w (min_out_of w t) (loaded_modules a) a3 = (r4, a4)"
    by (cases "changed_file w (min_out_of w t) (loaded_modules a) a3")
  have r4: "r4 = Inr None"
    using changed_file_none[of "loaded_modules a" w "min_out_of w t" a3] old c4 by auto
  have sc: "scan_depfiles w t (min_out_of w t) (abs_build_deps t) a4
              = (Inl (Exc NameError ''name 'depformat' is not defined''), a4)"
    by (rule scan_depfiles_invalid[OF fmt dep])
  show ?thesis
    using nf src bld find_missing_none[OF bex] m1 r1 mn c2 r2 c3 r3 l3 c4 r4 sc
    by (simp add: needs_rerun_def)
qed

text \<open>
  C8 fails on the error that is raised. A task that is not forced, whose source file is
  older than its build file, has the depfile \<open>/w/o/a.d\<close> on disk and the depformat
  \<open>clang\<close>, which is neither \<open>gcc\<close> nor \<open>msvc\<close>. The check reaches line 726, whose message
  reads the name \<^verbatim>\<open>depformat\<close>; no such name is bound there, so \<^verbatim>\<open>needs_rerun\<close> raises a
  NameError whose message is about that name and does not hold the depformat \<open>clang\<close>,
  where the claim has the invalid-depformat error with a message that identifies the
  value. (The same holds wherever the check reaches the depfiles:
  \<open>needs_rerun_invalid_depformat_NameError\<close>.)
\<close>

theorem needs_rerun_invalid_depformat_raises_NameError:
  "disk (env_of_files [(''/w/a.c'', 5, []), (''/w/o/a.o'', 7, []), (''/w/o/a.d'', 7, [])])
        ''/w/o/a.d'' \<noteq> None
   \<and> abs_build_deps (compile_action (VStr ''clang'')) = [''/w/o/a.d'']
   \<and> depformat (compile_action (VStr ''clang'')) \<noteq> VStr ''gcc''
   \<and> depformat (compile_action (VStr ''clang'')) \<noteq> VStr ''msvc''
   \<and> needs_rerun
         (env_of_files [(''/w/a.c'', 5, []), (''/w/o/a.o'', 7, []), (''/w/o/a.d'', 7, [])])
         False (compile_action (VStr ''clang'')) (App_init 4 ''/w'')
       = (Inl (Exc NameError ''name 'depformat' is not defined''),
          (App_init 4 ''/w'')\<lparr> mtime_calls := 2 \<rparr>)"
  by (simp add: compile_action_def env_of_files_def needs_rerun_def mtime_def
      read_deplines_def App_init_def)

text \<open>
  The depformat is looked at only when the check reaches the depfiles: a forced task with
  the same depfile and depformat gets its reason at the first check.
\<close>

lemma needs_rerun_forced_ignores_depformat:
  "fst (needs_rerun
          (env_of_files [(''/w/a.c'', 5, []), (''/w/o/a.o'', 7, []), (''/w/o/a.d'', 7, [])])
          True (compile_action (VStr ''clang'')) (App_init 4 ''/w''))
     = Inr (''Files '' @ str_of_paths [''/w/o/a.o''] @ '' forced to rebuild'')"
  by (simp add: compile_action_def env_of_files_def needs_rerun_def)

section \<open>Properties of the expansion\<close>















lemma restore_depth: "(a\<lparr>expand_depth := expand_depth a + 1\<rparr>)\<lparr>expand_depth := expand_depth a + 1 - 1\<rparr> = (a::app)"
  by simp











lemma link_name_eq: "link_name i = link_name j \<longleftrightarrow> i = j"
  by simp














lemma Expander_get_wraps:
  "Expander_get ev m C key a0 = Some (Inr r, a1) \<Longrightarrow>
     \<exists>v x. getattr C key = Inr v \<and> expand ev m False C v a0 = Some (Inr x, a1)
         \<and> r = (case x of VConfig c \<Rightarrow> VExpander c | _ \<Rightarrow> x)"
  by (auto simp: Expander_get.simps split: sum.splits option.splits)

lemma Expander_get_never_Config:
  "Expander_get ev m C key a0 = Some (Inr r, a1) \<Longrightarrow> r \<noteq> VConfig c"
  by (auto dest!: Expander_get_wraps split: variant.splits)




section \<open>Properties of awaiting and running a task\<close>

text \<open>More fuel never changes what the walk returns.\<close>

lemma first_failure_mono:
  assumes "\<And>x r. x \<in> set l \<Longrightarrow> f x = Some r \<Longrightarrow> g x = Some r"
    and "first_failure (map f l) = Some r"
  shows "first_failure (map g l) = Some r"
  using assms
proof (induction l arbitrary: r)
  case Nil
  then show ?case by simp
next
  case (Cons x xs)
  show ?case
  proof (cases "f x")
    case None
    with Cons.prems(2) show ?thesis by simp
  next
    case (Some y)
    have gx: "g x = Some y" using Cons.prems(1)[of x y] Some by simp
    show ?thesis
    proof (cases y)
      case (Inl e)
      with Some gx Cons.prems(2) show ?thesis by simp
    next
      case (Inr v)
      from Cons.prems(2) Some Inr obtain q where q: "first_failure (map f xs) = Some q"
        by (cases "first_failure (map f xs)") auto
      have "first_failure (map g xs) = Some q"
        using Cons.IH[OF _ q] Cons.prems(1) by simp
      with q Some gx Inr Cons.prems(2) show ?thesis by simp
    qed
  qed
qed

lemma await_variant_mono:
  "await_variant n finished v = Some r \<Longrightarrow> await_variant (Suc n) finished v = Some r"
proof (induction n finished v arbitrary: r rule: await_variant.induct)
  case (3 n finished i)
  then show ?case
    by (auto split: option.splits nat.splits sum.splits)
next
  case (5 n finished c)
  from "5.prems" obtain q where
    q: "first_failure (map (\<lambda>(key, v). await_variant n finished v) c) = Some q"
    by (auto split: option.splits)
  have "first_failure (map (\<lambda>(key, v). await_variant (Suc n) finished v) c) = Some q"
    by (rule first_failure_mono[OF _ q]) (use "5.IH" in auto)
  with q "5.prems" show ?case by simp
next
  case (6 n finished d)
  from "6.prems" obtain q where
    q: "first_failure (map (\<lambda>(key, v). await_variant n finished v) d) = Some q"
    by (auto split: option.splits)
  have "first_failure (map (\<lambda>(key, v). await_variant (Suc n) finished v) d) = Some q"
    by (rule first_failure_mono[OF _ q]) (use "6.IH" in auto)
  with q "6.prems" show ?case by simp
next
  case (7 n finished l)
  from "7.prems" obtain q where
    q: "first_failure (map (await_variant n finished) l) = Some q"
    by (auto split: option.splits)
  have "first_failure (map (await_variant (Suc n) finished) l) = Some q"
    by (rule first_failure_mono[OF _ q]) (use "7.IH" in auto)
  with q "7.prems" show ?case by simp
qed simp_all

text \<open>The walk of a config returns a config.\<close>

lemma await_variant_Config:
  "await_variant n finished (VConfig c) = Some (Inr v) \<Longrightarrow> \<exists>c'. v = VConfig c'"
  by (auto split: option.splits sum.splits)

text \<open>A task whose future returned the cancellation sentinel raises it in whoever awaits
  the task.\<close>

lemma await_variant_cancelled_task:
  "future_result finished i = Some (VExc (Exc CancelledError m)) \<Longrightarrow>
     await_variant (Suc n) finished (VTask (VFuture i)) = Some (Inl (Exc CancelledError m))"
  by (simp add: isinstance_exc_def is_subclass_def)

text \<open>
  Every exception is an instance of \<^verbatim>\<open>BaseException\<close>, so the first \<^verbatim>\<open>except\<close> clause of
  \<^verbatim>\<open>run_async\<close> takes every exception, a cancellation included, and the second clause is
  never reached: whatever the \<^verbatim>\<open>try\<close> block raises, the task is counted in \<open>tasks_fail\<close>
  and its future returns a new cancellation sentinel.
\<close>

lemma isinstance_BaseException: "isinstance_exc err BaseException"
  by (cases err; rename_tac c m; case_tac c)
     (simp_all add: isinstance_exc_def is_subclass_def)

lemma run_async_except_first_clause:
  "py_except run_async_except err a =
     (Inr (VExc (Exc CancelledError [])), a\<lparr> tasks_fail := tasks_fail a + 1 \<rparr>)"
  by (simp add: run_async_except_def isinstance_BaseException)

lemma run_async_raise:
  "run_async_try w jobs init n finished self a = Some (Inl err, a1) \<Longrightarrow>
     run_async w jobs init n finished self a =
       Some (Inr (VExc (Exc CancelledError [])), a1\<lparr> tasks_fail := tasks_fail a1 + 1 \<rparr>)"
  by (simp add: run_async_def run_async_except_first_clause)

lemma run_async_cancelled_dependency:
  "await_variant n finished (VConfig (config self)) = Some (Inl e) \<Longrightarrow>
     run_async w jobs init n finished self a =
       Some (Inr (VExc (Exc CancelledError [])), a\<lparr> tasks_fail := tasks_fail a + 1 \<rparr>)"
  by (rule run_async_raise) (simp add: run_async_try_def)

lemma run_async_never_raises:
  "run_async w jobs init n finished self a \<noteq> Some (Inl e, a1)"
  by (auto simp: run_async_def run_async_except_first_clause
           split: option.splits sum.splits prod.splits)

text \<open>
  C1 fails on the accounting. Four tasks are queued: the command of the first exits with
  return code 1, and each of the other three holds the first task in its config, at three
  depths of nesting. The future of every task returns the cancellation sentinel, as the
  claim says; but the three downstream tasks are counted in \<open>tasks_fail\<close> like the first,
  and \<open>tasks_cancel\<close> stays at 0: the build ends with \<open>tasks_fail = 4\<close>,
  \<open>tasks_cancel = 0\<close>, \<open>tasks_pass = 0\<close>, \<open>tasks_skip = 0\<close> and the exit code \<open>-1\<close>, where the
  claim has \<open>tasks_fail = 1\<close> and \<open>tasks_cancel = 3\<close>.
\<close>

theorem cancelled_tasks_are_counted_as_failed:
  "map_option
     (\<lambda>(r, a). (r, tasks_fail a, tasks_cancel a, tasks_pass a, tasks_skip a))
     (async_run_tasks failing_env 4 init_compile 1
        ((App_init 4 ''/w'')\<lparr> queued_tasks := fanout \<rparr>))
   = Some (Inr (- 1, [VExc (Exc CancelledError []), VExc (Exc CancelledError []),
                      VExc (Exc CancelledError []), VExc (Exc CancelledError [])]),
           4, 0, 0, 0)"
  by code_simp

end
